theory Spec2Isabelle
  imports Main
begin

section \<open>Values, errors and the environment\<close>

text \<open>
  A JavaScript value as the live-data code sees it: the body of an upstream response and
  the payload of a cache entry. \<open>Undefined\<close> is the value \<^verbatim>\<open>undefined\<close>, so that
  \<^verbatim>\<open>T | undefined\<close> is this one type. Numbers are integers here.
\<close>

datatype jsval =
    Undefined
  | Null
  | Bool bool
  | Num int
  | Str string
  | Arr "jsval list"
  | Obj "(string \<times> jsval) list"

text \<open>Truthiness, as \<^verbatim>\<open>if (x)\<close> and \<^verbatim>\<open>Boolean(x)\<close> compute it.\<close>

fun truthy :: "jsval \<Rightarrow> bool" where
  "truthy Undefined = False"
| "truthy Null = False"
| "truthy (Bool b) = b"
| "truthy (Num n) = (n \<noteq> 0)"
| "truthy (Str s) = (s \<noteq> [])"
| "truthy (Arr xs) = True"
| "truthy (Obj kvs) = True"

text \<open>\<^verbatim>\<open>x == null\<close> holds of \<^verbatim>\<open>null\<close> and \<^verbatim>\<open>undefined\<close> only.\<close>

fun isNullish :: "jsval \<Rightarrow> bool" where
  "isNullish Undefined = True"
| "isNullish Null = True"
| "isNullish v = False"

fun isArray :: "jsval \<Rightarrow> bool" where
  "isArray (Arr xs) = True"
| "isArray v = False"

text \<open>
  A thrown value: \<^verbatim>\<open>new Error(message)\<close>, or the discovery flow's
  \<^verbatim>\<open>new DiscoveryError(message, cause)\<close>.
\<close>

datatype error =
    Error string
  | DiscoveryError string "error option"

text \<open>
  A request handed to the transport: the POST of a path with its form fields, or the GET
  of the main page of a base URL with its query parameters.
\<close>

datatype request =
    POST string "(string \<times> string) list"
  | GET string "(string \<times> string) list"

text \<open>
  What the awaited transport call does: it resolves with a response body, rejects with an
  Axios error (\<^verbatim>\<open>axios.isAxiosError\<close> holds, with its message), or rejects with
  anything else.
\<close>

datatype 'a outcome =
    Response 'a
  | AxiosError string
  | OtherError error

text \<open>
  The transport is a parameter: given the request and the time it is sent, the outcome and
  the time at which the awaited call settles.
\<close>

type_synonym 'a transport = "request \<Rightarrow> int \<Rightarrow> 'a outcome \<times> int"

text \<open>
  The environment of a service object: \<open>now\<close> is what \<^verbatim>\<open>Date.now()\<close> returns
  (milliseconds), \<open>sent\<close> the requests handed to the transport so far, oldest first.
\<close>

record env =
  now :: int
  sent :: "request list"

record 'v cacheEntry =
  data :: 'v
  timestamp :: int

section \<open>The live-data client (api-client.ts)\<close>

record apiClient = env +
  cache :: "string \<rightharpoonup> jsval cacheEntry"
  cacheTimeout :: int

text \<open>
  \<^verbatim>\<open>n.toString()\<close> and \<^verbatim>\<open>`${n}`\<close> of an integer: its decimal digits, with a
  minus sign when negative. A parameter that is missing is \<open>None\<close>; the template literal
  prints it as \<^verbatim>\<open>undefined\<close>.
\<close>

definition digitChar :: "nat \<Rightarrow> char" where
  "digitChar n = ''0123456789'' ! n"

fun natToString :: "nat \<Rightarrow> string" where
  "natToString n =
     (if n < 10 then [digitChar n] else natToString (n div 10) @ [digitChar (n mod 10)])"

declare natToString.simps [simp del]

definition numToString :: "int \<Rightarrow> string" where
  "numToString i = (if i < 0 then CHR ''-'' # natToString (nat (- i)) else natToString (nat i))"

definition toString :: "int option \<Rightarrow> string" where
  "toString x = (case x of None \<Rightarrow> ''undefined'' | Some n \<Rightarrow> numToString n)"

text \<open>
  \<^verbatim>\<open>!x || x <= 0\<close> on a numeric parameter: \<^verbatim>\<open>!x\<close> holds when the parameter is
  missing or zero.
\<close>

definition notPositive :: "int option \<Rightarrow> bool" where
  "notPositive x = (case x of None \<Rightarrow> True | Some n \<Rightarrow> n = 0 \<or> n \<le> 0)"

text \<open>\<^verbatim>\<open>!x || x < lo || x > hi\<close>.\<close>

definition notWithin :: "int \<Rightarrow> int \<Rightarrow> int option \<Rightarrow> bool" where
  "notWithin lo hi x = (case x of None \<Rightarrow> True | Some n \<Rightarrow> n = 0 \<or> n < lo \<or> n > hi)"

record semesterProgramEventsParams =
  semesterProgramId :: "int option"
  year :: "int option"
  month :: "int option"

record groupsByCourseParams =
  courseId :: "int option"
  semesterId :: "int option"
  programId :: "int option"

text \<open>The fields \<^verbatim>\<open>semesterId\<close> and \<^verbatim>\<open>programId\<close> of \<^verbatim>\<open>CoursesByProgramParams\<close>.\<close>

record coursesByProgramParams =
  cbpSemesterId :: "int option"
  cbpProgramId :: "int option"

text \<open>The validators throw or return nothing: \<open>Some e\<close> is the thrown error.\<close>

definition validateSemesterProgramEventsParams :: "semesterProgramEventsParams \<Rightarrow> error option" where
  "validateSemesterProgramEventsParams params =
     (if notPositive (semesterProgramId params) then Some (Error ''Invalid semesterProgramId'')
      else if notWithin 2000 3000 (year params) then Some (Error ''Invalid year'')
      else if notWithin 1 12 (month params) then Some (Error ''Invalid month'')
      else None)"

definition validateGroupsByCourseParams :: "groupsByCourseParams \<Rightarrow> error option" where
  "validateGroupsByCourseParams params =
     (if notPositive (courseId params) then Some (Error ''Invalid courseId'')
      else if notPositive (semesterId params) then Some (Error ''Invalid semesterId'')
      else if notPositive (programId params) then Some (Error ''Invalid programId'')
      else None)"

definition validateCoursesByProgramParams :: "coursesByProgramParams \<Rightarrow> error option" where
  "validateCoursesByProgramParams params =
     (if notPositive (cbpSemesterId params) then Some (Error ''Invalid semesterId'')
      else if notPositive (cbpProgramId params) then Some (Error ''Invalid programId'')
      else None)"

definition getFromCache :: "string \<Rightarrow> apiClient \<Rightarrow> jsval \<times> apiClient" where
  "getFromCache key c =
     (case cache c key of
        None \<Rightarrow> (Undefined, c)
      | Some cached \<Rightarrow>
          if now c - timestamp cached < cacheTimeout c then (data cached, c)
          else (Undefined, c\<lparr>cache := (cache c)(key := None)\<rparr>))"

definition setCache :: "string \<Rightarrow> jsval \<Rightarrow> apiClient \<Rightarrow> apiClient" where
  "setCache key d c = c\<lparr>cache := (cache c)(key \<mapsto> \<lparr>data = d, timestamp = now c\<rparr>)\<rparr>"

text \<open>
  \<^verbatim>\<open>await this.client.post(path, new URLSearchParams(fields))\<close>: the request goes
  to the transport, and the clock stands at the settling time afterwards.
\<close>

definition post :: "jsval transport \<Rightarrow> request \<Rightarrow> apiClient \<Rightarrow> jsval outcome \<times> apiClient" where
  "post tr req c =
     (case tr req (now c) of (out, t) \<Rightarrow> (out, c\<lparr>now := t, sent := sent c @ [req]\<rparr>))"

text \<open>
  Each operation is written out as in the source: validation, the cache key, the cache
  read, and the \<^verbatim>\<open>try\<close> with its \<^verbatim>\<open>catch\<close> (an Axios error is wrapped, any
  other error is thrown on). The key and the request of each operation are named, so that
  theorems can speak of them. A request is built after validation only, so its fields are
  never those of a missing parameter.
\<close>

definition eventsCacheKey :: "semesterProgramEventsParams \<Rightarrow> string" where
  "eventsCacheKey params =
     ''events_'' @ toString (semesterProgramId params) @ ''_'' @ toString (year params)
       @ ''_'' @ toString (month params)"

definition eventsRequest :: "semesterProgramEventsParams \<Rightarrow> request" where
  "eventsRequest params =
     POST ''/getSemesterProgEventList''
       [(''semesterProgramId'', toString (semesterProgramId params)),
        (''year'', toString (year params)),
        (''month'', toString (month params))]"

definition fetchSemesterProgramEvents ::
  "jsval transport \<Rightarrow> semesterProgramEventsParams \<Rightarrow> apiClient \<Rightarrow> (error + jsval) \<times> apiClient" where
  "fetchSemesterProgramEvents tr params c =
     (case validateSemesterProgramEventsParams params of
        Some e \<Rightarrow> (Inl e, c)
      | None \<Rightarrow>
          (let cacheKey = eventsCacheKey params in
           case getFromCache cacheKey c of (cached, c1) \<Rightarrow>
             if truthy cached then (Inr cached, c1)
             else
               (case post tr (eventsRequest params) c1 of
                  (AxiosError m, c2) \<Rightarrow> (Inl (Error (''API request failed: '' @ m)), c2)
                | (OtherError e, c2) \<Rightarrow> (Inl e, c2)
                | (Response d, c2) \<Rightarrow>
                    if isNullish d then (Inl (Error ''Invalid response data''), c2)
                    else
                      (let events = (if isArray d then d else Arr [])
                       in (Inr events, setCache cacheKey events c2)))))"

definition subjectsCacheKey :: "int option \<Rightarrow> string" where
  "subjectsCacheKey semesterProgramId' = ''subjects_'' @ toString semesterProgramId'"

definition subjectsRequest :: "int option \<Rightarrow> request" where
  "subjectsRequest semesterProgramId' =
     POST ''/getSemProgSubjects'' [(''semesterProgramId'', toString semesterProgramId')]"

definition fetchSemesterProgramSubjects ::
  "jsval transport \<Rightarrow> int option \<Rightarrow> apiClient \<Rightarrow> (error + jsval) \<times> apiClient" where
  "fetchSemesterProgramSubjects tr semesterProgramId' c =
     (if notPositive semesterProgramId' then (Inl (Error ''Invalid semesterProgramId''), c)
      else
        (let cacheKey = subjectsCacheKey semesterProgramId' in
         case getFromCache cacheKey c of (cached, c1) \<Rightarrow>
           if truthy cached then (Inr cached, c1)
           else
             (case post tr (subjectsRequest semesterProgramId') c1 of
                (AxiosError m, c2) \<Rightarrow> (Inl (Error (''API request failed: '' @ m)), c2)
              | (OtherError e, c2) \<Rightarrow> (Inl e, c2)
              | (Response d, c2) \<Rightarrow>
                  if isNullish d then (Inl (Error ''Invalid response data''), c2)
                  else
                    (let subjects = (if isArray d then d else Arr [])
                     in (Inr subjects, setCache cacheKey subjects c2)))))"

definition publishedCacheKey :: "int option \<Rightarrow> string" where
  "publishedCacheKey semesterProgramId' = ''published_'' @ toString semesterProgramId'"

definition publishedRequest :: "int option \<Rightarrow> request" where
  "publishedRequest semesterProgramId' =
     POST ''/isSemesterProgramPublished'' [(''semesterProgramId'', toString semesterProgramId')]"

text \<open>
  The hit test of this operation is \<^verbatim>\<open>cached !== undefined\<close>, and a nullish body
  is not an error: \<^verbatim>\<open>response.data != null ? Boolean(response.data) : false\<close>.
\<close>

definition checkSemesterProgramPublished ::
  "jsval transport \<Rightarrow> int option \<Rightarrow> apiClient \<Rightarrow> (error + jsval) \<times> apiClient" where
  "checkSemesterProgramPublished tr semesterProgramId' c =
     (if notPositive semesterProgramId' then (Inl (Error ''Invalid semesterProgramId''), c)
      else
        (let cacheKey = publishedCacheKey semesterProgramId' in
         case getFromCache cacheKey c of (cached, c1) \<Rightarrow>
           if cached \<noteq> Undefined then (Inr cached, c1)
           else
             (case post tr (publishedRequest semesterProgramId') c1 of
                (AxiosError m, c2) \<Rightarrow> (Inl (Error (''API request failed: '' @ m)), c2)
              | (OtherError e, c2) \<Rightarrow> (Inl e, c2)
              | (Response d, c2) \<Rightarrow>
                  (let published = Bool (if isNullish d then False else truthy d)
                   in (Inr published, setCache cacheKey published c2)))))"

definition groupsCacheKey :: "groupsByCourseParams \<Rightarrow> string" where
  "groupsCacheKey params =
     ''groups_'' @ toString (courseId params) @ ''_'' @ toString (semesterId params)
       @ ''_'' @ toString (programId params)"

definition groupsRequest :: "groupsByCourseParams \<Rightarrow> request" where
  "groupsRequest params =
     POST ''/findGroupByCourseId''
       [(''courseId'', toString (courseId params)),
        (''semesterId'', toString (semesterId params)),
        (''programId'', toString (programId params))]"

definition findGroupsByCourse ::
  "jsval transport \<Rightarrow> groupsByCourseParams \<Rightarrow> apiClient \<Rightarrow> (error + jsval) \<times> apiClient" where
  "findGroupsByCourse tr params c =
     (case validateGroupsByCourseParams params of
        Some e \<Rightarrow> (Inl e, c)
      | None \<Rightarrow>
          (let cacheKey = groupsCacheKey params in
           case getFromCache cacheKey c of (cached, c1) \<Rightarrow>
             if truthy cached then (Inr cached, c1)
             else
               (case post tr (groupsRequest params) c1 of
                  (AxiosError m, c2) \<Rightarrow> (Inl (Error (''API request failed: '' @ m)), c2)
                | (OtherError e, c2) \<Rightarrow> (Inl e, c2)
                | (Response d, c2) \<Rightarrow>
                    if isNullish d then (Inl (Error ''Invalid response data''), c2)
                    else
                      (let groups = (if isArray d then d else Arr [])
                       in (Inr groups, setCache cacheKey groups c2)))))"

definition coursesCacheKey :: "coursesByProgramParams \<Rightarrow> string" where
  "coursesCacheKey params =
     ''courses_'' @ toString (cbpSemesterId params) @ ''_'' @ toString (cbpProgramId params)"

definition coursesRequest :: "coursesByProgramParams \<Rightarrow> request" where
  "coursesRequest params =
     POST ''/findCourseByProgramId''
       [(''semesterId'', toString (cbpSemesterId params)),
        (''programId'', toString (cbpProgramId params))]"

definition findCoursesByProgram ::
  "jsval transport \<Rightarrow> coursesByProgramParams \<Rightarrow> apiClient \<Rightarrow> (error + jsval) \<times> apiClient" where
  "findCoursesByProgram tr params c =
     (case validateCoursesByProgramParams params of
        Some e \<Rightarrow> (Inl e, c)
      | None \<Rightarrow>
          (let cacheKey = coursesCacheKey params in
           case getFromCache cacheKey c of (cached, c1) \<Rightarrow>
             if truthy cached then (Inr cached, c1)
             else
               (case post tr (coursesRequest params) c1 of
                  (AxiosError m, c2) \<Rightarrow> (Inl (Error (''API request failed: '' @ m)), c2)
                | (OtherError e, c2) \<Rightarrow> (Inl e, c2)
                | (Response d, c2) \<Rightarrow>
                    if isNullish d then (Inl (Error ''Invalid response data''), c2)
                    else
                      (let courses = (if isArray d then d else Arr [])
                       in (Inr courses, setCache cacheKey courses c2)))))"

section \<open>The discovery service (schedule/discovery.ts)\<close>

subsection \<open>Dates\<close>

text \<open>
  A \<^verbatim>\<open>Date\<close> is modelled by its reading on the local calendar: the year, the month
  (1 to 12), the day of the month and the milliseconds since local midnight. Two dates
  compare as their instants do, which is the lexicographic order of the readings.
\<close>

record date =
  dYear :: int
  dMonth :: nat
  dDay :: nat
  dMillis :: nat

definition date_le :: "date \<Rightarrow> date \<Rightarrow> bool" where
  "date_le a b =
     (dYear a < dYear b \<or>
      (dYear a = dYear b \<and>
       (dMonth a < dMonth b \<or>
        (dMonth a = dMonth b \<and>
         (dDay a < dDay b \<or> (dDay a = dDay b \<and> dMillis a \<le> dMillis b))))))"

text \<open>
  \<^verbatim>\<open>new Date(year, monthIndex, day)\<close>: local midnight of that day. The constructor
  reads a year from 0 to 99 as 1900 + year. The source calls it with a month index and a
  day that exist in that month only, so nothing carries over.
\<close>

definition fullYear :: "int \<Rightarrow> int" where
  "fullYear y = (if 0 \<le> y \<and> y \<le> 99 then 1900 + y else y)"

definition newDate :: "int \<Rightarrow> nat \<Rightarrow> nat \<Rightarrow> date" where
  "newDate y monthIndex d =
     \<lparr>dYear = fullYear y, dMonth = monthIndex + 1, dDay = d, dMillis = 0\<rparr>"

subsection \<open>Records of the parser and of the service\<close>

record semester =
  semId :: int
  semName :: string
  semIsSelected :: bool

text \<open>
  Modelled from the spec: the declaration of \<^verbatim>\<open>SemesterMetadata\<close> (types.ts) is not
  part of the sources; its \<^verbatim>\<open>startDate\<close> and \<^verbatim>\<open>endDate\<close> are optional dates,
  \<open>None\<close> when absent.
\<close>

record semesterMetadata =
  metaStartDate :: "date option"
  metaEndDate :: "date option"

record studyPeriod =
  spId :: int
  spName :: string
  spCode :: string
  spAcademicYear :: string
  spSeason :: string
  startDate :: date
  endDate :: date
  isSelected :: bool

record rawProgram =
  rpId :: int
  rpName :: string
  rpCode :: string
  rpTokens :: "string list"

record faculty =
  facultyName :: string
  facultyCode :: string
  facultyPrograms :: "rawProgram list"

record studyProgram =
  progId :: int
  progName :: string
  progCode :: string
  fullName :: string
  progFaculty :: "string \<times> string"
  tokens :: "string list"

text \<open>
  The label functions of utils.ts and the HTML parser are not part of the sources; they
  are parameters of the model. A parser call returns its result or the error it throws.
\<close>

record labelUtils =
  parsePeriodCode :: "string \<Rightarrow> string"
  parseAcademicYear :: "string \<Rightarrow> string"
  parseSeason :: "string \<Rightarrow> string"
  parseProgramName :: "string \<Rightarrow> string"

record htmlParser =
  parseHtmlSemesters :: "string \<Rightarrow> error + semester list"
  parseHtmlSemesterMetadata :: "string \<Rightarrow> error + semesterMetadata"
  parseHtmlPrograms :: "string \<Rightarrow> error + faculty list"

record discoveryService = env +
  baseUrl :: string
  discoveryCacheTimeout :: int
  periodsCache :: "studyPeriod list cacheEntry option"
  programsCache :: "int \<rightharpoonup> studyProgram list cacheEntry"

subsection \<open>The date range of a period\<close>

text \<open>
  \<^verbatim>\<open>academicYear.match(/^(\d{4})\/(\d{4})$/)\<close>: the two groups when the string is four
  digits, a slash and four digits, and \<^verbatim>\<open>parseInt(group, 10)\<close> of such a group.
\<close>

definition isDigit :: "char \<Rightarrow> bool" where
  "isDigit ch = (ch \<in> set ''0123456789'')"

definition yearMatch :: "string \<Rightarrow> (string \<times> string) option" where
  "yearMatch s =
     (if length s = 9 \<and> list_all isDigit (take 4 s) \<and> s ! 4 = CHR ''/''
         \<and> list_all isDigit (drop 5 s)
      then Some (take 4 s, drop 5 s) else None)"

definition digitVal :: "char \<Rightarrow> int" where
  "digitVal ch = int (of_char ch) - 48"

definition parseInt :: "string \<Rightarrow> int" where
  "parseInt s = foldl (\<lambda>n ch. 10 * n + digitVal ch) 0 s"

text \<open>
  The \<^verbatim>\<open>else\<close> branch of \<^verbatim>\<open>transformToStudyPeriod\<close> (lines 155 to 181):
  \<open>today\<close> is the value of \<^verbatim>\<open>new Date()\<close>, read once for the call.
\<close>

definition defaultDateRange :: "date \<Rightarrow> string \<Rightarrow> string \<Rightarrow> date \<times> date" where
  "defaultDateRange today academicYear season =
     (let ym = yearMatch academicYear;
          startYear = (case ym of Some (g1, g2) \<Rightarrow> parseInt g1 | None \<Rightarrow> dYear today);
          endYear = (case ym of Some (g1, g2) \<Rightarrow> parseInt g2 | None \<Rightarrow> startYear + 1)
      in if season = ''autumn'' then (newDate startYear 8 1, newDate endYear 0 31)
         else if season = ''spring'' then (newDate endYear 1 1, newDate endYear 5 30)
         else if season = ''summer'' then (newDate endYear 6 1, newDate endYear 7 31)
         else (today, today))"

text \<open>
  \<^verbatim>\<open>new Date(d)\<close> of a date \<open>d\<close> is a date of the same instant, so the first branch
  returns the two dates of the metadata.
\<close>

definition transformToStudyPeriod ::
  "labelUtils \<Rightarrow> date \<Rightarrow> semester \<Rightarrow> semesterMetadata \<Rightarrow> studyPeriod" where
  "transformToStudyPeriod u today sem metadata =
     (let code = parsePeriodCode u (semName sem);
          academicYear = parseAcademicYear u (semName sem);
          season = parseSeason u (semName sem);
          dates =
            (case (semIsSelected sem, metaStartDate metadata, metaEndDate metadata) of
               (True, Some s, Some e) \<Rightarrow> (s, e)
             | _ \<Rightarrow> defaultDateRange today academicYear season)
      in \<lparr>spId = semId sem, spName = semName sem, spCode = code,
           spAcademicYear = academicYear, spSeason = season,
           startDate = fst dates, endDate = snd dates,
           isSelected = semIsSelected sem\<rparr>)"

definition transformFacultiesToPrograms :: "labelUtils \<Rightarrow> faculty list \<Rightarrow> studyProgram list" where
  "transformFacultiesToPrograms u faculties =
     concat (map (\<lambda>f. map (\<lambda>p.
         \<lparr>progId = rpId p, progName = parseProgramName u (rpName p), progCode = rpCode p,
          fullName = rpName p, progFaculty = (facultyName f, facultyCode f),
          tokens = rpTokens p\<rparr>) (facultyPrograms f)) faculties)"

subsection \<open>Caches and operations\<close>

definition getCachedPeriods :: "discoveryService \<Rightarrow> studyPeriod list option \<times> discoveryService" where
  "getCachedPeriods d =
     (case periodsCache d of
        None \<Rightarrow> (None, d)
      | Some cached \<Rightarrow>
          if now d - timestamp cached > discoveryCacheTimeout d
          then (None, d\<lparr>periodsCache := None\<rparr>)
          else (Some (data cached), d))"

definition getCachedPrograms ::
  "int \<Rightarrow> discoveryService \<Rightarrow> studyProgram list option \<times> discoveryService" where
  "getCachedPrograms periodId d =
     (case programsCache d periodId of
        None \<Rightarrow> (None, d)
      | Some cached \<Rightarrow>
          if now d - timestamp cached > discoveryCacheTimeout d
          then (None, d\<lparr>programsCache := (programsCache d)(periodId := None)\<rparr>)
          else (Some (data cached), d))"

definition mainPageRequest :: "string \<Rightarrow> int option \<Rightarrow> request" where
  "mainPageRequest base semesterId' =
     GET base ((''lang'', ''lv'') #
       (case semesterId' of None \<Rightarrow> [] | Some n \<Rightarrow> [(''semester'', numToString n)]))"

text \<open>
  \<^verbatim>\<open>new URL('/', this.baseUrl)\<close> throws a \<^verbatim>\<open>TypeError\<close> when the base URL is not a
  valid one, before the request and outside the \<^verbatim>\<open>try\<close> of \<^verbatim>\<open>fetchMainPage\<close>. Which
  strings the platform accepts is the parameter \<open>validUrl\<close>.
\<close>

definition fetchMainPage ::
  "(string \<Rightarrow> bool) \<Rightarrow> string transport \<Rightarrow> int option \<Rightarrow> discoveryService
     \<Rightarrow> (error + string) \<times> discoveryService" where
  "fetchMainPage validUrl tr semesterId' d =
     (if \<not> validUrl (baseUrl d) then (Inl (Error ''Invalid URL''), d)
      else
        (let req = mainPageRequest (baseUrl d) semesterId' in
         case tr req (now d) of (out, t) \<Rightarrow>
           (let d1 = d\<lparr>now := t, sent := sent d @ [req]\<rparr> in
            case out of
              Response html \<Rightarrow> (Inr html, d1)
            | AxiosError m \<Rightarrow> (Inl (DiscoveryError (''HTTP request failed: '' @ m) None), d1)
            | OtherError e \<Rightarrow> (Inl e, d1))))"

text \<open>
  \<open>localTime\<close> turns the clock's milliseconds into the local calendar reading that
  \<^verbatim>\<open>new Date()\<close> has at that instant. An array is truthy, so \<^verbatim>\<open>if (cached)\<close>
  holds of every cached list. Every thrown value of the model is an \<^verbatim>\<open>Error\<close>, so
  the \<^verbatim>\<open>catch\<close> always keeps it as the cause.
\<close>

definition discoverPeriods ::
  "htmlParser \<Rightarrow> labelUtils \<Rightarrow> (int \<Rightarrow> date) \<Rightarrow> (string \<Rightarrow> bool) \<Rightarrow> string transport
     \<Rightarrow> discoveryService \<Rightarrow> (error + studyPeriod list) \<times> discoveryService" where
  "discoverPeriods hp u localTime validUrl tr d =
     (case getCachedPeriods d of
        (Some cached, d1) \<Rightarrow> (Inr cached, d1)
      | (None, d1) \<Rightarrow>
          (case fetchMainPage validUrl tr None d1 of
             (Inl e, d2) \<Rightarrow> (Inl (DiscoveryError ''Failed to fetch periods'' (Some e)), d2)
           | (Inr html, d2) \<Rightarrow>
               (case parseHtmlSemesters hp html of
                  Inl e \<Rightarrow> (Inl (DiscoveryError ''Failed to fetch periods'' (Some e)), d2)
                | Inr semesters \<Rightarrow>
                    (case parseHtmlSemesterMetadata hp html of
                       Inl e \<Rightarrow> (Inl (DiscoveryError ''Failed to fetch periods'' (Some e)), d2)
                     | Inr metadata \<Rightarrow>
                         (let periods =
                                map (\<lambda>s. transformToStudyPeriod u (localTime (now d2)) s metadata)
                                  semesters
                          in (Inr periods,
                              d2\<lparr>periodsCache :=
                                   Some \<lparr>data = periods, timestamp = now d2\<rparr>\<rparr>))))))"

definition discoverPrograms ::
  "htmlParser \<Rightarrow> labelUtils \<Rightarrow> (string \<Rightarrow> bool) \<Rightarrow> string transport \<Rightarrow> int
     \<Rightarrow> discoveryService \<Rightarrow> (error + studyProgram list) \<times> discoveryService" where
  "discoverPrograms hp u validUrl tr periodId d =
     (case getCachedPrograms periodId d of
        (Some cached, d1) \<Rightarrow> (Inr cached, d1)
      | (None, d1) \<Rightarrow>
          (case fetchMainPage validUrl tr (Some periodId) d1 of
             (Inl e, d2) \<Rightarrow> (Inl (DiscoveryError ''Failed to fetch programs'' (Some e)), d2)
           | (Inr html, d2) \<Rightarrow>
               (case parseHtmlPrograms hp html of
                  Inl e \<Rightarrow> (Inl (DiscoveryError ''Failed to fetch programs'' (Some e)), d2)
                | Inr faculties \<Rightarrow>
                    (let programs = transformFacultiesToPrograms u faculties
                     in (Inr programs,
                         d2\<lparr>programsCache :=
                              (programsCache d2)(periodId \<mapsto>
                                 \<lparr>data = programs, timestamp = now d2\<rparr>)\<rparr>)))))"

section \<open>Definitions used to state and prove the properties\<close>

text \<open>
  The constructors: an empty cache, and \<^verbatim>\<open>config.cacheTimeout ?? 5 * 60 * 1000\<close>
  for the client, \<^verbatim>\<open>options?.cacheTimeout ?? 60 * 60 * 1000\<close> and the default base
  URL for the discovery service. \<open>t\<close> is the clock's reading.
\<close>

definition newApiClient :: "int option \<Rightarrow> int \<Rightarrow> apiClient" where
  "newApiClient configCacheTimeout t =
     \<lparr>now = t, sent = [], cache = Map.empty,
      cacheTimeout = (case configCacheTimeout of None \<Rightarrow> 5 * 60 * 1000 | Some v \<Rightarrow> v)\<rparr>"

definition newDiscoveryService :: "string option \<Rightarrow> int option \<Rightarrow> int \<Rightarrow> discoveryService" where
  "newDiscoveryService optBaseUrl optCacheTimeout t =
     \<lparr>now = t, sent = [],
      baseUrl = (case optBaseUrl of None \<Rightarrow> ''https://nodarbibas.rtu.lv'' | Some b \<Rightarrow> b),
      discoveryCacheTimeout = (case optCacheTimeout of None \<Rightarrow> 60 * 60 * 1000 | Some v \<Rightarrow> v),
      periodsCache = None, programsCache = Map.empty\<rparr>"

text \<open>A transport that gives every request the same outcome, after \<open>delay\<close> milliseconds.\<close>

definition answering :: "'a outcome \<Rightarrow> int \<Rightarrow> 'a transport" where
  "answering out delay = (\<lambda>req t. (out, t + delay))"

text \<open>
  The four list operations share one body after validation; \<open>cachedListCall\<close> is that
  body with the key and the request as parameters. Each operation is proved equal to its
  instance below, so that the four are reasoned about together.
\<close>

definition cachedListCall ::
  "jsval transport \<Rightarrow> string \<Rightarrow> request \<Rightarrow> apiClient \<Rightarrow> (error + jsval) \<times> apiClient" where
  "cachedListCall tr cacheKey req c =
     (case getFromCache cacheKey c of (cached, c1) \<Rightarrow>
        if truthy cached then (Inr cached, c1)
        else
          (case post tr req c1 of
             (AxiosError m, c2) \<Rightarrow> (Inl (Error (''API request failed: '' @ m)), c2)
           | (OtherError e, c2) \<Rightarrow> (Inl e, c2)
           | (Response d, c2) \<Rightarrow>
               if isNullish d then (Inl (Error ''Invalid response data''), c2)
               else
                 (let items = (if isArray d then d else Arr [])
                  in (Inr items, setCache cacheKey items c2))))"

text \<open>
  The specification's words for a bad parameter: missing or not positive, and (for the
  year and the month) missing or outside a range.
\<close>

definition missingOrNonPositive :: "int option \<Rightarrow> bool" where
  "missingOrNonPositive x = (case x of None \<Rightarrow> True | Some n \<Rightarrow> n \<le> 0)"

definition missingOrOutside :: "int \<Rightarrow> int \<Rightarrow> int option \<Rightarrow> bool" where
  "missingOrOutside lo hi x = (case x of None \<Rightarrow> True | Some n \<Rightarrow> n < lo \<or> hi < n)"

text \<open>
  Stand-ins for the collaborators that are parameters of the model, used where a theorem
  is applied to concrete inputs: label functions that answer the given code, academic year
  and season for every label, a parser that returns the given records for every page, and
  a parser whose calls all throw.
\<close>

definition fixedUtils :: "string \<Rightarrow> string \<Rightarrow> string \<Rightarrow> labelUtils" where
  "fixedUtils code academicYear season =
     \<lparr>parsePeriodCode = (\<lambda>label. code), parseAcademicYear = (\<lambda>label. academicYear),
      parseSeason = (\<lambda>label. season), parseProgramName = (\<lambda>label. label)\<rparr>"

definition fixedParser :: "semester list \<Rightarrow> semesterMetadata \<Rightarrow> faculty list \<Rightarrow> htmlParser" where
  "fixedParser semesters metadata faculties =
     \<lparr>parseHtmlSemesters = (\<lambda>html. Inr semesters),
      parseHtmlSemesterMetadata = (\<lambda>html. Inr metadata),
      parseHtmlPrograms = (\<lambda>html. Inr faculties)\<rparr>"

definition throwingParser :: "error \<Rightarrow> htmlParser" where
  "throwingParser e =
     \<lparr>parseHtmlSemesters = (\<lambda>html. Inl e),
      parseHtmlSemesterMetadata = (\<lambda>html. Inl e),
      parseHtmlPrograms = (\<lambda>html. Inl e)\<rparr>"

text \<open>
  The specification's words for the default date range: \<open>ymd\<close> is the calendar day
  \<^verbatim>\<open>year-month-day\<close> at midnight, \<open>fourDigits\<close> writes a year below 10000 as the four
  digits \<^verbatim>\<open>YYYY\<close>, and \<open>specDateRange\<close> is the table of the four seasons.
\<close>

definition ymd :: "int \<Rightarrow> nat \<Rightarrow> nat \<Rightarrow> date" where
  "ymd y m d = \<lparr>dYear = y, dMonth = m, dDay = d, dMillis = 0\<rparr>"

definition fourDigits :: "nat \<Rightarrow> string" where
  "fourDigits n =
     [digitChar (n div 1000 mod 10), digitChar (n div 100 mod 10),
      digitChar (n div 10 mod 10), digitChar (n mod 10)]"

definition specDateRange :: "string \<Rightarrow> int \<Rightarrow> int \<Rightarrow> date \<Rightarrow> date \<times> date" where
  "specDateRange season startYear endYear today =
     (if season = ''autumn'' then (ymd startYear 9 1, ymd endYear 1 31)
      else if season = ''spring'' then (ymd endYear 2 1, ymd endYear 6 30)
      else if season = ''summer'' then (ymd endYear 7 1, ymd endYear 8 31)
      else (today, today))"

text \<open>Whether the period takes its dates from the metadata (line 150).\<close>

definition authoritative :: "semester \<Rightarrow> semesterMetadata \<Rightarrow> bool" where
  "authoritative sem metadata =
     (semIsSelected sem \<and> metaStartDate metadata \<noteq> None \<and> metaEndDate metadata \<noteq> None)"

text \<open>
  The cache state as the specification counts it: a slot whose entry has outlived the
  time-to-live is empty. \<open>liveCache t c\<close> holds the entries of the client that a read
  at time \<open>t\<close> returns, \<open>livePeriods\<close> and \<open>livePrograms\<close> those of the discovery
  service, each with the comparison its own read uses.
\<close>

definition liveCache :: "int \<Rightarrow> apiClient \<Rightarrow> (string \<rightharpoonup> jsval cacheEntry)" where
  "liveCache t c =
     (\<lambda>k. case cache c k of
            None \<Rightarrow> None
          | Some e \<Rightarrow> if t - timestamp e < cacheTimeout c then Some e else None)"

definition livePeriods :: "int \<Rightarrow> discoveryService \<Rightarrow> studyPeriod list cacheEntry option" where
  "livePeriods t d =
     (case periodsCache d of
        None \<Rightarrow> None
      | Some e \<Rightarrow> if t - timestamp e > discoveryCacheTimeout d then None else Some e)"

definition livePrograms :: "int \<Rightarrow> discoveryService \<Rightarrow> (int \<rightharpoonup> studyProgram list cacheEntry)" where
  "livePrograms t d =
     (\<lambda>p. case programsCache d p of
            None \<Rightarrow> None
          | Some e \<Rightarrow> if t - timestamp e > discoveryCacheTimeout d then None else Some e)"

text \<open>
  Two states with entries of different ages, for the theorems on failed calls. The client,
  at time 400000 with the default time-to-live of 300000, holds a publication status
  written at 399000 and a subject list written at 40. The discovery service, at time
  4000000 with the default time-to-live of 3600000, holds a period list and the programs
  of period 28 written at 0, and the programs of period 27 written at 3990000.
\<close>

definition agedClient :: apiClient where
  "agedClient =
     (newApiClient None 0)
       \<lparr>now := 400000,
        cache := [publishedCacheKey (Some 12) \<mapsto> \<lparr>data = Bool True, timestamp = 399000\<rparr>,
                  subjectsCacheKey (Some 12) \<mapsto> \<lparr>data = Arr [Num 1], timestamp = 40\<rparr>]\<rparr>"

definition agedService :: "string option \<Rightarrow> discoveryService" where
  "agedService optBaseUrl =
     (newDiscoveryService optBaseUrl None 0)
       \<lparr>now := 4000000,
        periodsCache := Some \<lparr>data = [], timestamp = 0\<rparr>,
        programsCache := [28 \<mapsto> \<lparr>data = [], timestamp = 0\<rparr>,
                          27 \<mapsto> \<lparr>data = [], timestamp = 3990000\<rparr>]\<rparr>"

section \<open>Lemmas on the live-data client\<close>

lemma isArray_truthy: "isArray v \<Longrightarrow> truthy v"
  by (cases v) simp_all

lemma notPositive_iff: "notPositive x = missingOrNonPositive x"
  by (auto simp: notPositive_def missingOrNonPositive_def split: option.splits)

lemma notWithin_iff: "0 < lo \<Longrightarrow> notWithin lo hi x = missingOrOutside lo hi x"
  by (auto simp: notWithin_def missingOrOutside_def split: option.splits)

lemma events_unfold:
  "fetchSemesterProgramEvents tr p c =
     (case validateSemesterProgramEventsParams p of
        Some e \<Rightarrow> (Inl e, c)
      | None \<Rightarrow> cachedListCall tr (eventsCacheKey p) (eventsRequest p) c)"
  by (simp add: fetchSemesterProgramEvents_def cachedListCall_def Let_def split: option.split)

lemma subjects_unfold:
  "fetchSemesterProgramSubjects tr i c =
     (if notPositive i then (Inl (Error ''Invalid semesterProgramId''), c)
      else cachedListCall tr (subjectsCacheKey i) (subjectsRequest i) c)"
  by (simp add: fetchSemesterProgramSubjects_def cachedListCall_def Let_def)

lemma groups_unfold:
  "findGroupsByCourse tr p c =
     (case validateGroupsByCourseParams p of
        Some e \<Rightarrow> (Inl e, c)
      | None \<Rightarrow> cachedListCall tr (groupsCacheKey p) (groupsRequest p) c)"
  by (simp add: findGroupsByCourse_def cachedListCall_def Let_def split: option.split)

lemma courses_unfold:
  "findCoursesByProgram tr p c =
     (case validateCoursesByProgramParams p of
        Some e \<Rightarrow> (Inl e, c)
      | None \<Rightarrow> cachedListCall tr (coursesCacheKey p) (coursesRequest p) c)"
  by (simp add: findCoursesByProgram_def cachedListCall_def Let_def split: option.split)

lemma getFromCache_absent: "cache c key = None \<Longrightarrow> getFromCache key c = (Undefined, c)"
  by (simp add: getFromCache_def)

lemma getFromCache_fresh:
  "cache c key = Some e \<Longrightarrow> now c - timestamp e < cacheTimeout c \<Longrightarrow>
   getFromCache key c = (data e, c)"
  by (simp add: getFromCache_def)

lemma getFromCache_stale:
  "cache c key = Some e \<Longrightarrow> cacheTimeout c \<le> now c - timestamp e \<Longrightarrow>
   getFromCache key c = (Undefined, c\<lparr>cache := (cache c)(key := None)\<rparr>)"
  by (simp add: getFromCache_def)

lemma getFromCache_frame:
  "getFromCache key c = (v, c1) \<Longrightarrow>
     now c1 = now c \<and> sent c1 = sent c \<and> cacheTimeout c1 = cacheTimeout c"
  by (auto simp: getFromCache_def split: option.splits if_splits)

lemma getFromCache_cache:
  "getFromCache key c = (v, c1) \<Longrightarrow>
     cache c1 = cache c \<or>
     (\<exists>e. cache c key = Some e \<and> cacheTimeout c \<le> now c - timestamp e
          \<and> cache c1 = (cache c)(key := None))"
  by (auto simp: getFromCache_def split: option.splits if_splits)

text \<open>A miss, followed by what the transport does.\<close>

lemma cachedListCall_miss:
  assumes "getFromCache key c = (v0, c0)" and "\<not> truthy v0"
    and "tr req (now c) = (out, t1)"
  shows "cachedListCall tr key req c =
     (case out of
        AxiosError m \<Rightarrow>
          (Inl (Error (''API request failed: '' @ m)), c0\<lparr>now := t1, sent := sent c @ [req]\<rparr>)
      | OtherError e \<Rightarrow> (Inl e, c0\<lparr>now := t1, sent := sent c @ [req]\<rparr>)
      | Response d \<Rightarrow>
          if isNullish d
          then (Inl (Error ''Invalid response data''), c0\<lparr>now := t1, sent := sent c @ [req]\<rparr>)
          else (Inr (if isArray d then d else Arr []),
                c0\<lparr>now := t1, sent := sent c @ [req],
                   cache := (cache c0)(key \<mapsto>
                     \<lparr>data = (if isArray d then d else Arr []), timestamp = t1\<rparr>)\<rparr>))"
  using assms getFromCache_frame[OF assms(1)]
  by (simp add: cachedListCall_def post_def setCache_def Let_def split: outcome.splits)

lemma cachedListCall_hit:
  assumes "cache c key = Some e" and "now c - timestamp e < cacheTimeout c"
    and "truthy (data e)"
  shows "cachedListCall tr key req c = (Inr (data e), c)"
  using assms by (simp add: cachedListCall_def getFromCache_fresh)

lemma cachedListCall_failure:
  assumes "cachedListCall tr key req c = (Inl err, c1)"
  shows "cacheTimeout c1 = cacheTimeout c \<and>
     (cache c1 = cache c \<or>
      (\<exists>e. cache c key = Some e \<and> cacheTimeout c \<le> now c - timestamp e
           \<and> cache c1 = (cache c)(key := None)))"
proof -
  obtain v0 c0 where g: "getFromCache key c = (v0, c0)" by (cases "getFromCache key c")
  obtain out t1 where t: "tr req (now c) = (out, t1)" by (cases "tr req (now c)")
  have nt: "\<not> truthy v0" using assms g by (auto simp: cachedListCall_def)
  have "cache c1 = cache c0 \<and> cacheTimeout c1 = cacheTimeout c0"
    using assms cachedListCall_miss[where tr=tr and req=req, OF g nt t]
    by (auto split: outcome.splits if_splits)
  with getFromCache_cache[OF g] getFromCache_frame[OF g] show ?thesis by simp
qed

lemma cachedListCall_once:
  assumes miss: "\<not> truthy (fst (getFromCache key c))"
    and reply: "tr req (now c) = (Response d, t1)" and body: "\<not> isNullish d"
    and first: "cachedListCall tr key req c = (r1, c1)"
    and within: "t2 - t1 < cacheTimeout c"
  shows "r1 = Inr (if isArray d then d else Arr []) \<and> sent c1 = sent c @ [req]
       \<and> cachedListCall tr2 key req (c1\<lparr>now := t2\<rparr>) = (r1, c1\<lparr>now := t2\<rparr>)"
proof -
  obtain v0 c0 where g: "getFromCache key c = (v0, c0)" by (cases "getFromCache key c")
  have nt: "\<not> truthy v0" using miss g by simp
  let ?v = "if isArray d then d else Arr []"
  let ?e = "\<lparr>data = ?v, timestamp = t1\<rparr>"
  have c1: "r1 = Inr ?v"
    "c1 = c0\<lparr>now := t1, sent := sent c @ [req], cache := (cache c0)(key \<mapsto> ?e)\<rparr>"
    using first cachedListCall_miss[where tr=tr and req=req, OF g nt reply] body by simp_all
  have tv: "truthy ?v" by (simp add: isArray_truthy)
  have "cachedListCall tr2 key req (c1\<lparr>now := t2\<rparr>) = (Inr (data ?e), c1\<lparr>now := t2\<rparr>)"
    by (rule cachedListCall_hit) (use c1 within tv getFromCache_frame[OF g] in simp_all)
  then show ?thesis using c1 by simp
qed

lemma published_miss:
  assumes "\<not> notPositive i"
    and "getFromCache (publishedCacheKey i) c = (Undefined, c0)"
    and "tr (publishedRequest i) (now c) = (out, t1)"
  shows "checkSemesterProgramPublished tr i c =
     (case out of
        AxiosError m \<Rightarrow>
          (Inl (Error (''API request failed: '' @ m)),
           c0\<lparr>now := t1, sent := sent c @ [publishedRequest i]\<rparr>)
      | OtherError e \<Rightarrow> (Inl e, c0\<lparr>now := t1, sent := sent c @ [publishedRequest i]\<rparr>)
      | Response d \<Rightarrow>
          (Inr (Bool (\<not> isNullish d \<and> truthy d)),
           c0\<lparr>now := t1, sent := sent c @ [publishedRequest i],
              cache := (cache c0)(publishedCacheKey i \<mapsto>
                \<lparr>data = Bool (\<not> isNullish d \<and> truthy d), timestamp = t1\<rparr>)\<rparr>))"
  using assms getFromCache_frame[OF assms(2)]
  by (simp add: checkSemesterProgramPublished_def post_def setCache_def Let_def
      split: outcome.splits)

lemma published_hit:
  assumes "\<not> notPositive i" and "cache c (publishedCacheKey i) = Some e"
    and "now c - timestamp e < cacheTimeout c" and "data e \<noteq> Undefined"
  shows "checkSemesterProgramPublished tr i c = (Inr (data e), c)"
  using assms by (simp add: checkSemesterProgramPublished_def getFromCache_fresh)

lemma published_failure:
  assumes "checkSemesterProgramPublished tr i c = (Inl err, c1)"
  shows "cacheTimeout c1 = cacheTimeout c \<and>
     (cache c1 = cache c \<or>
      (\<exists>e. cache c (publishedCacheKey i) = Some e \<and> cacheTimeout c \<le> now c - timestamp e
           \<and> cache c1 = (cache c)(publishedCacheKey i := None)))"
proof (cases "notPositive i")
  case True
  then show ?thesis using assms by (simp add: checkSemesterProgramPublished_def)
next
  case False
  obtain v0 c0 where g: "getFromCache (publishedCacheKey i) c = (v0, c0)"
    by (cases "getFromCache (publishedCacheKey i) c")
  obtain out t1 where t: "tr (publishedRequest i) (now c) = (out, t1)"
    by (cases "tr (publishedRequest i) (now c)")
  have u: "v0 = Undefined"
    using assms g False by (auto simp: checkSemesterProgramPublished_def split: if_splits)
  have "cache c1 = cache c0 \<and> cacheTimeout c1 = cacheTimeout c0"
    using assms published_miss[where tr=tr, OF False g[unfolded u] t]
    by (auto split: outcome.splits)
  with getFromCache_cache[OF g] getFromCache_frame[OF g] show ?thesis by simp
qed

lemma published_once:
  assumes valid: "\<not> notPositive i"
    and miss: "fst (getFromCache (publishedCacheKey i) c) = Undefined"
    and reply: "tr (publishedRequest i) (now c) = (Response d, t1)"
    and first: "checkSemesterProgramPublished tr i c = (r1, c1)"
    and within: "t2 - t1 < cacheTimeout c"
  shows "r1 = Inr (Bool (\<not> isNullish d \<and> truthy d)) \<and> sent c1 = sent c @ [publishedRequest i]
       \<and> checkSemesterProgramPublished tr2 i (c1\<lparr>now := t2\<rparr>) = (r1, c1\<lparr>now := t2\<rparr>)"
proof -
  obtain c0 where g: "getFromCache (publishedCacheKey i) c = (Undefined, c0)"
    using miss by (cases "getFromCache (publishedCacheKey i) c") simp
  let ?v = "Bool (\<not> isNullish d \<and> truthy d)"
  let ?e = "\<lparr>data = ?v, timestamp = t1\<rparr>"
  have c1: "r1 = Inr ?v"
    "c1 = c0\<lparr>now := t1, sent := sent c @ [publishedRequest i],
             cache := (cache c0)(publishedCacheKey i \<mapsto> ?e)\<rparr>"
    using first published_miss[where tr=tr, OF valid g reply] by simp_all
  have "checkSemesterProgramPublished tr2 i (c1\<lparr>now := t2\<rparr>) = (Inr (data ?e), c1\<lparr>now := t2\<rparr>)"
    by (rule published_hit) (use c1 valid within getFromCache_frame[OF g] in simp_all)
  then show ?thesis using c1 by simp
qed

lemma cachedListCall_result:
  assumes "\<not> truthy (fst (getFromCache key c))" and "tr req (now c) = (out, t1)"
  shows "fst (cachedListCall tr key req c) =
     (case out of
        Response d \<Rightarrow>
          if isNullish d then Inl (Error ''Invalid response data'')
          else if isArray d then Inr d else Inr (Arr [])
      | AxiosError m \<Rightarrow> Inl (Error (''API request failed: '' @ m))
      | OtherError e \<Rightarrow> Inl e)"
proof -
  obtain v0 c0 where g: "getFromCache key c = (v0, c0)" by (cases "getFromCache key c")
  have nt: "\<not> truthy v0" using assms(1) g by simp
  show ?thesis
    using cachedListCall_miss[where tr=tr and req=req, OF g nt assms(2)]
    by (simp split: outcome.splits)
qed

section \<open>Lemmas on the discovery service\<close>

lemma getCachedPeriods_frame:
  assumes "getCachedPeriods d = (r, d1)"
  shows "programsCache d1 = programsCache d \<and> now d1 = now d \<and> sent d1 = sent d
       \<and> discoveryCacheTimeout d1 = discoveryCacheTimeout d \<and> baseUrl d1 = baseUrl d
       \<and> (periodsCache d1 = periodsCache d \<or>
           (r = None \<and> periodsCache d1 = None \<and>
            (\<exists>e. periodsCache d = Some e \<and> discoveryCacheTimeout d < now d - timestamp e)))"
  using assms by (auto simp: getCachedPeriods_def split: option.splits if_splits)

lemma getCachedPrograms_frame:
  assumes "getCachedPrograms p d = (r, d1)"
  shows "periodsCache d1 = periodsCache d \<and> now d1 = now d \<and> sent d1 = sent d
       \<and> discoveryCacheTimeout d1 = discoveryCacheTimeout d \<and> baseUrl d1 = baseUrl d
       \<and> (programsCache d1 = programsCache d \<or>
           (r = None \<and> programsCache d1 = (programsCache d)(p := None) \<and>
            (\<exists>e. programsCache d p = Some e \<and> discoveryCacheTimeout d < now d - timestamp e)))"
  using assms by (auto simp: getCachedPrograms_def split: option.splits if_splits)

lemma fetchMainPage_frame:
  assumes "fetchMainPage validUrl tr s d = (r, d1)"
  shows "periodsCache d1 = periodsCache d \<and> programsCache d1 = programsCache d
       \<and> discoveryCacheTimeout d1 = discoveryCacheTimeout d \<and> baseUrl d1 = baseUrl d"
  using assms
  by (auto simp: fetchMainPage_def Let_def split: prod.splits outcome.splits if_splits)

lemma discoverPeriods_failure:
  assumes "discoverPeriods hp u lt validUrl tr d = (Inl err, d1)"
  shows "programsCache d1 = programsCache d
   \<and> discoveryCacheTimeout d1 = discoveryCacheTimeout d \<and>
     (periodsCache d1 = periodsCache d \<or>
      (periodsCache d1 = None \<and>
       (\<exists>e. periodsCache d = Some e \<and> discoveryCacheTimeout d < now d - timestamp e)))"
proof -
  obtain r0 d0 where g: "getCachedPeriods d = (r0, d0)" by (cases "getCachedPeriods d")
  obtain rf df where f: "fetchMainPage validUrl tr None d0 = (rf, df)" by (cases "fetchMainPage validUrl tr None d0")
  have "periodsCache d1 = periodsCache df \<and> programsCache d1 = programsCache df
      \<and> discoveryCacheTimeout d1 = discoveryCacheTimeout df"
    using assms g f
    by (auto simp: discoverPeriods_def Let_def split: option.splits sum.splits)
  with getCachedPeriods_frame[OF g] fetchMainPage_frame[OF f] show ?thesis by auto
qed

lemma discoverPrograms_failure:
  assumes "discoverPrograms hp u validUrl tr p d = (Inl err, d1)"
  shows "periodsCache d1 = periodsCache d
   \<and> discoveryCacheTimeout d1 = discoveryCacheTimeout d \<and>
     (programsCache d1 = programsCache d \<or>
      (programsCache d1 = (programsCache d)(p := None) \<and>
       (\<exists>e. programsCache d p = Some e \<and> discoveryCacheTimeout d < now d - timestamp e)))"
proof -
  obtain r0 d0 where g: "getCachedPrograms p d = (r0, d0)" by (cases "getCachedPrograms p d")
  obtain rf df where f: "fetchMainPage validUrl tr (Some p) d0 = (rf, df)"
    by (cases "fetchMainPage validUrl tr (Some p) d0")
  have "periodsCache d1 = periodsCache df \<and> programsCache d1 = programsCache df
      \<and> discoveryCacheTimeout d1 = discoveryCacheTimeout df"
    using assms g f
    by (auto simp: discoverPrograms_def Let_def split: option.splits sum.splits)
  with getCachedPrograms_frame[OF g] fetchMainPage_frame[OF f] show ?thesis by auto
qed

lemma discoverPrograms_frame:
  assumes "discoverPrograms hp u validUrl tr p d = (r, d1)"
  shows "periodsCache d1 = periodsCache d
       \<and> discoveryCacheTimeout d1 = discoveryCacheTimeout d
       \<and> (\<forall>q. q \<noteq> p \<longrightarrow> programsCache d1 q = programsCache d q)"
proof -
  obtain r0 d0 where g: "getCachedPrograms p d = (r0, d0)" by (cases "getCachedPrograms p d")
  obtain rf df where f: "fetchMainPage validUrl tr (Some p) d0 = (rf, df)"
    by (cases "fetchMainPage validUrl tr (Some p) d0")
  have "periodsCache d1 = periodsCache d0 \<and> discoveryCacheTimeout d1 = discoveryCacheTimeout d0
      \<and> (\<forall>q. q \<noteq> p \<longrightarrow> programsCache d1 q = programsCache d0 q)"
    using assms g f fetchMainPage_frame[OF f]
    by (auto simp: discoverPrograms_def Let_def split: option.splits sum.splits)
  with getCachedPrograms_frame[OF g] show ?thesis by auto
qed

text \<open>
  Every list that \<^verbatim>\<open>discoverPeriods\<close> builds is the list of the parser's semesters,
  each turned into a period by \<open>transformToStudyPeriod\<close>.
\<close>

lemma discoverPeriods_built:
  assumes "periodsCache d = None" and "discoverPeriods hp u localTime validUrl tr d = (Inr ps, d1)"
  shows "\<exists>html semesters metadata.
           parseHtmlSemesters hp html = Inr semesters
         \<and> parseHtmlSemesterMetadata hp html = Inr metadata
         \<and> ps = map (\<lambda>s. transformToStudyPeriod u (localTime (now d1)) s metadata) semesters"
  using assms
  by (fastforce simp: discoverPeriods_def getCachedPeriods_def fetchMainPage_def Let_def
      split: sum.splits prod.splits outcome.splits if_splits)

text \<open>What each kind of cache read returns, by the age of the entry.\<close>

lemma getFromCache_read:
  "cache c key = Some e \<Longrightarrow>
   getFromCache key c =
     (if now c - timestamp e < cacheTimeout c then (data e, c)
      else (Undefined, c\<lparr>cache := (cache c)(key := None)\<rparr>))"
  by (simp add: getFromCache_def)

lemma getCachedPeriods_read:
  "periodsCache d = Some e \<Longrightarrow>
   getCachedPeriods d =
     (if now d - timestamp e \<le> discoveryCacheTimeout d then (Some (data e), d)
      else (None, d\<lparr>periodsCache := None\<rparr>))"
  by (simp add: getCachedPeriods_def)

lemma getCachedPrograms_read:
  "programsCache d p = Some e \<Longrightarrow>
   getCachedPrograms p d =
     (if now d - timestamp e \<le> discoveryCacheTimeout d then (Some (data e), d)
      else (None, d\<lparr>programsCache := (programsCache d)(p := None)\<rparr>))"
  by (simp add: getCachedPrograms_def)

lemma getCachedPrograms_result:
  "fst (getCachedPrograms q d) =
     (case programsCache d q of
        None \<Rightarrow> None
      | Some e \<Rightarrow>
          if now d - timestamp e > discoveryCacheTimeout d then None else Some (data e))"
  by (simp add: getCachedPrograms_def split: option.splits)

lemma discoverPrograms_success:
  assumes "discoverPrograms hp u validUrl tr p d = (Inr ps, d1)"
  shows "\<exists>e. programsCache d1 p = Some e \<and> data e = ps"
  using assms
  by (auto simp: discoverPrograms_def getCachedPrograms_def fetchMainPage_def Let_def
      split: option.splits sum.splits prod.splits if_splits outcome.splits)

section \<open>Lemmas on the date range\<close>

text \<open>The regular expression matches exactly the strings \<^verbatim>\<open>YYYY/YYYY\<close>.\<close>

lemma below_ten: "k < 10 \<Longrightarrow> k \<in> {0, 1, 2, 3, 4, 5, 6, 7, 8, 9::nat}"
  by auto

lemma isDigit_digitChar: "k < 10 \<Longrightarrow> isDigit (digitChar k)"
  by (drule below_ten) (auto simp: isDigit_def digitChar_def)

lemma digitVal_digitChar: "k < 10 \<Longrightarrow> digitVal (digitChar k) = int k"
  by (drule below_ten) (auto simp: digitVal_def digitChar_def)

lemma yearMatch_fourDigits:
  "yearMatch (fourDigits a @ ''/'' @ fourDigits b) = Some (fourDigits a, fourDigits b)"
  by (simp add: yearMatch_def fourDigits_def isDigit_digitChar)

lemma parseInt_expand: "parseInt (fourDigits n) =
      1000 * int (n div 1000 mod 10) + 100 * int (n div 100 mod 10)
        + 10 * int (n div 10 mod 10) + int (n mod 10)"
    by (simp add: parseInt_def fourDigits_def digitVal_digitChar)

lemma digits_sum:
  fixes n :: nat
  assumes "n < 10000"
  shows "1000 * (n div 1000 mod 10) + 100 * (n div 100 mod 10)
        + 10 * (n div 10 mod 10) + n mod 10 = n"
proof -
  have e1: "n div 1000 = n div 100 div 10" using div_mult2_eq[of n 100 10] by simp
  have e2: "n div 100 = n div 10 div 10" using div_mult2_eq[of n 10 10] by simp
  have a: "n div 1000 mod 10 = n div 1000" using assms by simp
  have b: "n div 100 = 10 * (n div 1000) + n div 100 mod 10"
    unfolding e1 by simp
  have c: "n div 10 = 10 * (n div 100) + n div 10 mod 10"
    unfolding e2 by simp
  have d: "n = 10 * (n div 10) + n mod 10" by simp
  show ?thesis using a b c d by linarith
qed

lemma mod_ten: "b < 10 \<Longrightarrow> (10 * a + b) mod 10 = (b::nat)"
  by simp

lemma digits_of_sum:
  fixes w x y z :: nat
  assumes "w < 10" "x < 10" "y < 10" "z < 10"
  shows "(1000 * w + 100 * x + 10 * y + z) div 1000 mod 10 = w"
    and "(1000 * w + 100 * x + 10 * y + z) div 100 mod 10 = x"
    and "(1000 * w + 100 * x + 10 * y + z) div 10 mod 10 = y"
    and "(1000 * w + 100 * x + 10 * y + z) mod 10 = z"
proof -
  let ?s = "1000 * w + 100 * x + 10 * y + z"
  have d3: "?s div 1000 = w" using assms by (intro div_nat_eqI) simp_all
  have d2: "?s div 100 = 10 * w + x" using assms by (intro div_nat_eqI) simp_all
  have d1: "?s div 10 = 10 * (10 * w + x) + y" using assms by (intro div_nat_eqI) simp_all
  have d0: "?s = 10 * (10 * (10 * w + x) + y) + z" by simp
  show "?s div 1000 mod 10 = w" using d3 assms by simp
  show "?s div 100 mod 10 = x" unfolding d2 by (rule mod_ten) (rule assms)
  show "?s div 10 mod 10 = y" unfolding d1 by (rule mod_ten) (rule assms)
  show "?s mod 10 = z" by (subst d0, rule mod_ten) (rule assms)
qed

lemma isDigit_ex: "isDigit ch \<Longrightarrow> \<exists>k<10. ch = digitChar k"
proof -
  assume "isDigit ch"
  then consider "ch = digitChar 0" | "ch = digitChar 1" | "ch = digitChar 2" | "ch = digitChar 3"
    | "ch = digitChar 4" | "ch = digitChar 5" | "ch = digitChar 6" | "ch = digitChar 7"
    | "ch = digitChar 8" | "ch = digitChar 9"
    by (auto simp: isDigit_def digitChar_def)
  then show ?thesis
  proof cases
    case 1 then show ?thesis by (intro exI[of _ 0]) simp
  next
    case 2 then show ?thesis by (intro exI[of _ 1]) simp
  next
    case 3 then show ?thesis by (intro exI[of _ 2]) simp
  next
    case 4 then show ?thesis by (intro exI[of _ 3]) simp
  next
    case 5 then show ?thesis by (intro exI[of _ 4]) simp
  next
    case 6 then show ?thesis by (intro exI[of _ 5]) simp
  next
    case 7 then show ?thesis by (intro exI[of _ 6]) simp
  next
    case 8 then show ?thesis by (intro exI[of _ 7]) simp
  next
    case 9 then show ?thesis by (intro exI[of _ 8]) simp
  next
    case 10 then show ?thesis by (intro exI[of _ 9]) simp
  qed
qed

lemma four_digits_ex:
  assumes "length g = 4" and "list_all isDigit g"
  shows "\<exists>n<10000. g = fourDigits n"
proof -
  obtain c3 c2 c1 c0 where g: "g = [c3, c2, c1, c0]"
    using assms(1) by (auto simp: length_Suc_conv numeral_eq_Suc)
  obtain w where w: "w < 10" "c3 = digitChar w" using assms(2) g isDigit_ex[of c3] by auto
  obtain x where x: "x < 10" "c2 = digitChar x" using assms(2) g isDigit_ex[of c2] by auto
  obtain y where y: "y < 10" "c1 = digitChar y" using assms(2) g isDigit_ex[of c1] by auto
  obtain z where z: "z < 10" "c0 = digitChar z" using assms(2) g isDigit_ex[of c0] by auto
  let ?n = "1000 * w + 100 * x + 10 * y + z"
  have "g = fourDigits ?n"
    unfolding fourDigits_def
    using digits_of_sum[OF w(1) x(1) y(1) z(1)] g w(2) x(2) y(2) z(2) by simp
  moreover have "?n < 10000" using w(1) x(1) y(1) z(1) by simp
  ultimately show ?thesis by blast
qed

lemma yearMatch_Some:
  assumes "yearMatch s = Some (g1, g2)"
  shows "\<exists>a b. a < 10000 \<and> b < 10000 \<and> s = fourDigits a @ ''/'' @ fourDigits b
       \<and> g1 = fourDigits a \<and> g2 = fourDigits b"
proof -
  have m: "length s = 9" "list_all isDigit (take 4 s)" "s ! 4 = CHR ''/''"
    "list_all isDigit (drop 5 s)" "g1 = take 4 s" "g2 = drop 5 s"
    using assms by (auto simp: yearMatch_def split: if_splits)
  have s: "s = take 4 s @ s ! 4 # drop 5 s"
    using id_take_nth_drop[of 4 s] m(1) by simp
  obtain a where a: "a < 10000" "take 4 s = fourDigits a"
    using four_digits_ex[of "take 4 s"] m(1,2) by auto
  obtain b where b: "b < 10000" "drop 5 s = fourDigits b"
    using four_digits_ex[of "drop 5 s"] m(1,4) by auto
  have "s = fourDigits a @ ''/'' @ fourDigits b"
    using s a(2) b(2) m(3) by simp
  then show ?thesis using a b m(5,6) by blast
qed

lemma parseInt_fourDigits: "n < 10000 \<Longrightarrow> parseInt (fourDigits n) = int n"
proof -
  assume n: "n < 10000"
  have "parseInt (fourDigits n) =
      1000 * int (n div 1000 mod 10) + 100 * int (n div 100 mod 10)
        + 10 * int (n div 10 mod 10) + int (n mod 10)"
    by (rule parseInt_expand)
  also have "\<dots> = int (1000 * (n div 1000 mod 10) + 100 * (n div 100 mod 10)
        + 10 * (n div 10 mod 10) + n mod 10)"
    by (simp only: of_nat_add of_nat_mult of_nat_numeral)
  also have "\<dots> = int n"
    by (simp only: digits_sum[OF n])
  finally show ?thesis .
qed

lemma fullYear_from_100: "100 \<le> y \<Longrightarrow> fullYear y = y"
  by (simp add: fullYear_def)

lemma fullYear_succ: "fullYear y < fullYear (y + 1) \<longleftrightarrow> y \<noteq> 99"
  by (auto simp: fullYear_def)

text \<open>
  The default range is the specification's table, with each year as the constructor reads
  it.
\<close>

lemma defaultDateRange_parsed:
  assumes "a < 10000" and "b < 10000"
  shows "defaultDateRange today (fourDigits a @ ''/'' @ fourDigits b) season =
     specDateRange season (fullYear (int a)) (fullYear (int b)) today"
  using assms
  by (simp add: defaultDateRange_def specDateRange_def yearMatch_fourDigits[simplified]
      parseInt_fourDigits newDate_def ymd_def Let_def)

lemma defaultDateRange_unparsed:
  assumes "yearMatch academicYear = None"
  shows "defaultDateRange today academicYear season =
     specDateRange season (fullYear (dYear today)) (fullYear (dYear today + 1)) today"
  using assms
  by (simp add: defaultDateRange_def specDateRange_def newDate_def ymd_def Let_def)

lemma transform_default:
  assumes "\<not> authoritative sem metadata"
  shows "startDate (transformToStudyPeriod u today sem metadata) =
       fst (defaultDateRange today (parseAcademicYear u (semName sem)) (parseSeason u (semName sem)))"
    and "endDate (transformToStudyPeriod u today sem metadata) =
       snd (defaultDateRange today (parseAcademicYear u (semName sem)) (parseSeason u (semName sem)))"
  using assms
  by (auto simp: transformToStudyPeriod_def authoritative_def Let_def
      split: option.splits bool.splits)

lemma transform_authoritative:
  assumes "semIsSelected sem" and "metaStartDate metadata = Some s"
    and "metaEndDate metadata = Some e"
  shows "startDate (transformToStudyPeriod u today sem metadata) = s"
    and "endDate (transformToStudyPeriod u today sem metadata) = e"
  using assms by (simp_all add: transformToStudyPeriod_def Let_def)

lemma date_le_specDateRange:
  "date_le (fst (specDateRange season sy ey today)) (snd (specDateRange season sy ey today))
     \<longleftrightarrow> season \<noteq> ''autumn'' \<or> sy < ey"
  by (auto simp: specDateRange_def ymd_def date_le_def)

section \<open>Lemmas on the cache state after a failed call\<close>

text \<open>
  When a call has left the cache as it was, or has only dropped an entry that had already
  expired when the call was made, the live entries and every read are the same at any time
  from the call on.
\<close>

lemma liveCache_kept:
  assumes ttl: "cacheTimeout c1 = cacheTimeout c"
    and rel: "cache c1 = cache c \<or>
      (\<exists>e. cache c key = Some e \<and> cacheTimeout c \<le> now c - timestamp e
           \<and> cache c1 = (cache c)(key := None))"
    and later: "now c \<le> t"
  shows "liveCache t c1 = liveCache t c"
  using rel
proof
  assume "cache c1 = cache c"
  then show ?thesis using ttl by (simp add: liveCache_def cong: option.case_cong)
next
  assume "\<exists>e. cache c key = Some e \<and> cacheTimeout c \<le> now c - timestamp e
           \<and> cache c1 = (cache c)(key := None)"
  then obtain e where e: "cache c key = Some e" "cacheTimeout c \<le> now c - timestamp e"
    "cache c1 = (cache c)(key := None)" by blast
  have old: "\<not> t - timestamp e < cacheTimeout c" using e(2) later by simp
  show ?thesis
  proof (rule ext)
    fix k
    show "liveCache t c1 k = liveCache t c k"
    proof (cases "k = key")
      case True
      then show ?thesis using e old ttl by (simp add: liveCache_def)
    next
      case False
      then show ?thesis using e(3) ttl by (simp add: liveCache_def cong: option.case_cong)
    qed
  qed
qed

lemma getFromCache_live:
  "fst (getFromCache k (c\<lparr>now := t\<rparr>)) =
     (case liveCache t c k of None \<Rightarrow> Undefined | Some e \<Rightarrow> data e)"
  by (simp add: getFromCache_def liveCache_def split: option.splits)

lemma slot_kept:
  assumes "cache c1 = cache c \<or>
      (\<exists>e. cache c key = Some e \<and> cacheTimeout c \<le> now c - timestamp e
           \<and> cache c1 = (cache c)(key := None))"
  shows "cache c1 k = cache c k \<or> cache c1 k = None"
  using assms
proof
  assume "cache c1 = cache c"
  then show ?thesis by simp
next
  assume "\<exists>e. cache c key = Some e \<and> cacheTimeout c \<le> now c - timestamp e
           \<and> cache c1 = (cache c)(key := None)"
  then have "cache c1 = (cache c)(key := None)" by blast
  then show ?thesis by (cases "k = key") simp_all
qed

lemma client_failure_kept:
  assumes "cacheTimeout c1 = cacheTimeout c \<and>
     (cache c1 = cache c \<or>
      (\<exists>e. cache c key = Some e \<and> cacheTimeout c \<le> now c - timestamp e
           \<and> cache c1 = (cache c)(key := None)))"
  shows "cacheTimeout c1 = cacheTimeout c
       \<and> (cache c1 k = cache c k \<or> cache c1 k = None)
       \<and> (now c \<le> t \<longrightarrow>
            liveCache t c1 = liveCache t c
          \<and> fst (getFromCache k (c1\<lparr>now := t\<rparr>)) = fst (getFromCache k (c\<lparr>now := t\<rparr>)))"
proof (intro conjI impI)
  show "cacheTimeout c1 = cacheTimeout c" using assms by simp
  show "cache c1 k = cache c k \<or> cache c1 k = None"
    by (rule slot_kept[OF assms[THEN conjunct2]])
next
  assume later: "now c \<le> t"
  show live: "liveCache t c1 = liveCache t c"
    by (rule liveCache_kept[OF assms[THEN conjunct1] assms[THEN conjunct2] later])
  show "fst (getFromCache k (c1\<lparr>now := t\<rparr>)) = fst (getFromCache k (c\<lparr>now := t\<rparr>))"
    by (simp only: getFromCache_live live)
qed

lemma getCachedPeriods_live:
  "fst (getCachedPeriods (d\<lparr>now := t\<rparr>)) = map_option data (livePeriods t d)"
  by (simp add: getCachedPeriods_def livePeriods_def split: option.splits)

lemma getCachedPrograms_live:
  "fst (getCachedPrograms q (d\<lparr>now := t\<rparr>)) = map_option data (livePrograms t d q)"
  by (simp add: getCachedPrograms_def livePrograms_def split: option.splits)

lemma livePrograms_same:
  "programsCache d1 = programsCache d \<Longrightarrow> discoveryCacheTimeout d1 = discoveryCacheTimeout d
   \<Longrightarrow> livePrograms t d1 = livePrograms t d"
  by (simp add: livePrograms_def cong: option.case_cong)

lemma livePeriods_same:
  "periodsCache d1 = periodsCache d \<Longrightarrow> discoveryCacheTimeout d1 = discoveryCacheTimeout d
   \<Longrightarrow> livePeriods t d1 = livePeriods t d"
  by (simp add: livePeriods_def cong: option.case_cong)

lemma livePeriods_kept:
  assumes ttl: "discoveryCacheTimeout d1 = discoveryCacheTimeout d"
    and rel: "periodsCache d1 = periodsCache d \<or>
      (periodsCache d1 = None \<and>
       (\<exists>e. periodsCache d = Some e \<and> discoveryCacheTimeout d < now d - timestamp e))"
    and later: "now d \<le> t"
  shows "livePeriods t d1 = livePeriods t d"
  using rel
proof
  assume "periodsCache d1 = periodsCache d"
  then show ?thesis using ttl by (rule livePeriods_same)
next
  assume a: "periodsCache d1 = None \<and>
       (\<exists>e. periodsCache d = Some e \<and> discoveryCacheTimeout d < now d - timestamp e)"
  then obtain e where e: "periodsCache d = Some e" "discoveryCacheTimeout d < now d - timestamp e"
    by blast
  have "discoveryCacheTimeout d < t - timestamp e" using e(2) later by simp
  then show ?thesis using a e(1) by (simp add: livePeriods_def)
qed

lemma livePrograms_kept:
  assumes ttl: "discoveryCacheTimeout d1 = discoveryCacheTimeout d"
    and rel: "programsCache d1 = programsCache d \<or>
      (programsCache d1 = (programsCache d)(p := None) \<and>
       (\<exists>e. programsCache d p = Some e \<and> discoveryCacheTimeout d < now d - timestamp e))"
    and later: "now d \<le> t"
  shows "livePrograms t d1 = livePrograms t d"
  using rel
proof
  assume "programsCache d1 = programsCache d"
  then show ?thesis using ttl by (rule livePrograms_same)
next
  assume a: "programsCache d1 = (programsCache d)(p := None) \<and>
       (\<exists>e. programsCache d p = Some e \<and> discoveryCacheTimeout d < now d - timestamp e)"
  then obtain e where e: "programsCache d p = Some e"
    "discoveryCacheTimeout d < now d - timestamp e" by blast
  have old: "discoveryCacheTimeout d < t - timestamp e" using e(2) later by simp
  show ?thesis
  proof (rule ext)
    fix q
    show "livePrograms t d1 q = livePrograms t d q"
    proof (cases "q = p")
      case True
      then show ?thesis using a e(1) old by (simp add: livePrograms_def)
    next
      case False
      then show ?thesis using a ttl by (simp add: livePrograms_def cong: option.case_cong)
    qed
  qed
qed

lemma periods_failure_kept:
  assumes "programsCache d1 = programsCache d
   \<and> discoveryCacheTimeout d1 = discoveryCacheTimeout d \<and>
     (periodsCache d1 = periodsCache d \<or>
      (periodsCache d1 = None \<and>
       (\<exists>e. periodsCache d = Some e \<and> discoveryCacheTimeout d < now d - timestamp e)))"
  shows "programsCache d1 = programsCache d
       \<and> discoveryCacheTimeout d1 = discoveryCacheTimeout d
       \<and> (periodsCache d1 = periodsCache d \<or> periodsCache d1 = None)
       \<and> (now d \<le> t \<longrightarrow>
            livePeriods t d1 = livePeriods t d
          \<and> livePrograms t d1 = livePrograms t d
          \<and> fst (getCachedPeriods (d1\<lparr>now := t\<rparr>)) = fst (getCachedPeriods (d\<lparr>now := t\<rparr>)))"
proof (intro conjI impI)
  show "programsCache d1 = programsCache d" using assms by simp
  show "discoveryCacheTimeout d1 = discoveryCacheTimeout d" using assms by simp
  show "periodsCache d1 = periodsCache d \<or> periodsCache d1 = None"
    using assms[THEN conjunct2, THEN conjunct2] by (rule disjE) simp_all
next
  assume later: "now d \<le> t"
  show live: "livePeriods t d1 = livePeriods t d"
    by (rule livePeriods_kept[OF assms[THEN conjunct2, THEN conjunct1]
          assms[THEN conjunct2, THEN conjunct2] later])
  show "livePrograms t d1 = livePrograms t d"
    by (rule livePrograms_same[OF assms[THEN conjunct1] assms[THEN conjunct2, THEN conjunct1]])
  show "fst (getCachedPeriods (d1\<lparr>now := t\<rparr>)) = fst (getCachedPeriods (d\<lparr>now := t\<rparr>))"
    by (simp only: getCachedPeriods_live live)
qed

lemma programs_failure_kept:
  assumes "periodsCache d1 = periodsCache d
   \<and> discoveryCacheTimeout d1 = discoveryCacheTimeout d \<and>
     (programsCache d1 = programsCache d \<or>
      (programsCache d1 = (programsCache d)(p := None) \<and>
       (\<exists>e. programsCache d p = Some e \<and> discoveryCacheTimeout d < now d - timestamp e)))"
  shows "periodsCache d1 = periodsCache d
       \<and> discoveryCacheTimeout d1 = discoveryCacheTimeout d
       \<and> (programsCache d1 q = programsCache d q \<or> programsCache d1 q = None)
       \<and> (now d \<le> t \<longrightarrow>
            livePeriods t d1 = livePeriods t d
          \<and> livePrograms t d1 = livePrograms t d
          \<and> fst (getCachedPrograms q (d1\<lparr>now := t\<rparr>)) = fst (getCachedPrograms q (d\<lparr>now := t\<rparr>)))"
proof (intro conjI impI)
  show "periodsCache d1 = periodsCache d" using assms by simp
  show "discoveryCacheTimeout d1 = discoveryCacheTimeout d" using assms by simp
  show "programsCache d1 q = programsCache d q \<or> programsCache d1 q = None"
  proof (cases "programsCache d1 = programsCache d")
    case True
    then show ?thesis by simp
  next
    case False
    then have "programsCache d1 = (programsCache d)(p := None)"
      using assms[THEN conjunct2, THEN conjunct2] by (elim disjE) simp_all
    then show ?thesis by (cases "q = p") simp_all
  qed
next
  assume later: "now d \<le> t"
  show "livePeriods t d1 = livePeriods t d"
    by (rule livePeriods_same[OF assms[THEN conjunct1] assms[THEN conjunct2, THEN conjunct1]])
  show live: "livePrograms t d1 = livePrograms t d"
    by (rule livePrograms_kept[OF assms[THEN conjunct2, THEN conjunct1]
          assms[THEN conjunct2, THEN conjunct2] later])
  show "fst (getCachedPrograms q (d1\<lparr>now := t\<rparr>)) = fst (getCachedPrograms q (d\<lparr>now := t\<rparr>))"
    by (simp only: getCachedPrograms_live live)
qed

section \<open>Validation comes before the network\<close>

text \<open>
  Claim C7. Every operation of the live-data client checks its parameters first. When a
  parameter is missing or not positive (for the year: missing or outside 2000 to 3000; for
  the month: missing or outside 1 to 12), the operation throws the error that names the
  first such parameter, and the client is returned as it was: no request has been handed
  to the transport and the cache is untouched. In particular
  \<^verbatim>\<open>fetchSemesterProgramEvents({semesterProgramId: 0, year: 2024, month: 5})\<close> throws
  \<^verbatim>\<open>Invalid semesterProgramId\<close> without a request.
\<close>

theorem validation_precedes_network:
  "(missingOrNonPositive (semesterProgramId ep) \<longrightarrow>
      fetchSemesterProgramEvents tr ep c = (Inl (Error ''Invalid semesterProgramId''), c))
 \<and> (\<not> missingOrNonPositive (semesterProgramId ep) \<and> missingOrOutside 2000 3000 (year ep) \<longrightarrow>
      fetchSemesterProgramEvents tr ep c = (Inl (Error ''Invalid year''), c))
 \<and> (\<not> missingOrNonPositive (semesterProgramId ep) \<and> \<not> missingOrOutside 2000 3000 (year ep)
      \<and> missingOrOutside 1 12 (month ep) \<longrightarrow>
      fetchSemesterProgramEvents tr ep c = (Inl (Error ''Invalid month''), c))
 \<and> (missingOrNonPositive i \<longrightarrow>
      fetchSemesterProgramSubjects tr i c = (Inl (Error ''Invalid semesterProgramId''), c))
 \<and> (missingOrNonPositive i \<longrightarrow>
      checkSemesterProgramPublished tr i c = (Inl (Error ''Invalid semesterProgramId''), c))
 \<and> (missingOrNonPositive (courseId gp) \<longrightarrow>
      findGroupsByCourse tr gp c = (Inl (Error ''Invalid courseId''), c))
 \<and> (\<not> missingOrNonPositive (courseId gp) \<and> missingOrNonPositive (semesterId gp) \<longrightarrow>
      findGroupsByCourse tr gp c = (Inl (Error ''Invalid semesterId''), c))
 \<and> (\<not> missingOrNonPositive (courseId gp) \<and> \<not> missingOrNonPositive (semesterId gp)
      \<and> missingOrNonPositive (programId gp) \<longrightarrow>
      findGroupsByCourse tr gp c = (Inl (Error ''Invalid programId''), c))
 \<and> (missingOrNonPositive (cbpSemesterId cp) \<longrightarrow>
      findCoursesByProgram tr cp c = (Inl (Error ''Invalid semesterId''), c))
 \<and> (\<not> missingOrNonPositive (cbpSemesterId cp) \<and> missingOrNonPositive (cbpProgramId cp) \<longrightarrow>
      findCoursesByProgram tr cp c = (Inl (Error ''Invalid programId''), c))
 \<and> fetchSemesterProgramEvents tr \<lparr>semesterProgramId = Some 0, year = Some 2024, month = Some 5\<rparr> c
      = (Inl (Error ''Invalid semesterProgramId''), c)"
proof -
  have y: "notWithin 2000 3000 x = missingOrOutside 2000 3000 x" for x
    by (rule notWithin_iff) simp
  have m: "notWithin 1 12 x = missingOrOutside 1 12 x" for x
    by (rule notWithin_iff) simp
  have ev: "fetchSemesterProgramEvents tr p c =
      (if missingOrNonPositive (semesterProgramId p) then (Inl (Error ''Invalid semesterProgramId''), c)
       else if missingOrOutside 2000 3000 (year p) then (Inl (Error ''Invalid year''), c)
       else if missingOrOutside 1 12 (month p) then (Inl (Error ''Invalid month''), c)
       else cachedListCall tr (eventsCacheKey p) (eventsRequest p) c)" for p
    by (simp add: events_unfold validateSemesterProgramEventsParams_def notPositive_iff y m)
  have gr: "findGroupsByCourse tr p c =
      (if missingOrNonPositive (courseId p) then (Inl (Error ''Invalid courseId''), c)
       else if missingOrNonPositive (semesterId p) then (Inl (Error ''Invalid semesterId''), c)
       else if missingOrNonPositive (programId p) then (Inl (Error ''Invalid programId''), c)
       else cachedListCall tr (groupsCacheKey p) (groupsRequest p) c)" for p
    by (simp add: groups_unfold validateGroupsByCourseParams_def notPositive_iff)
  have co: "findCoursesByProgram tr p c =
      (if missingOrNonPositive (cbpSemesterId p) then (Inl (Error ''Invalid semesterId''), c)
       else if missingOrNonPositive (cbpProgramId p) then (Inl (Error ''Invalid programId''), c)
       else cachedListCall tr (coursesCacheKey p) (coursesRequest p) c)" for p
    by (simp add: courses_unfold validateCoursesByProgramParams_def notPositive_iff)
  have su: "missingOrNonPositive i \<Longrightarrow>
      fetchSemesterProgramSubjects tr i c = (Inl (Error ''Invalid semesterProgramId''), c)"
    by (simp add: subjects_unfold notPositive_iff)
  have pu: "missingOrNonPositive i \<Longrightarrow>
      checkSemesterProgramPublished tr i c = (Inl (Error ''Invalid semesterProgramId''), c)"
    by (simp add: checkSemesterProgramPublished_def notPositive_iff)
  have ex: "fetchSemesterProgramEvents tr \<lparr>semesterProgramId = Some 0, year = Some 2024, month = Some 5\<rparr> c
      = (Inl (Error ''Invalid semesterProgramId''), c)"
    by (simp add: ev missingOrNonPositive_def)
  show ?thesis
    using su pu ex by (simp add: ev gr co)
qed

theorem validation_precedes_network_witness:
  "fetchSemesterProgramEvents (answering (Response (Arr [])) 40)
      \<lparr>semesterProgramId = Some 0, year = Some 2024, month = Some 5\<rparr> (newApiClient None 1000)
     = (Inl (Error ''Invalid semesterProgramId''), newApiClient None 1000)
   \<and> sent (snd (fetchSemesterProgramEvents (answering (Response (Arr [])) 40)
      \<lparr>semesterProgramId = Some 7, year = Some 1999, month = Some 5\<rparr> (newApiClient None 1000))) = []
   \<and> fst (fetchSemesterProgramEvents (answering (Response (Arr [])) 40)
      \<lparr>semesterProgramId = Some 7, year = Some 2024, month = Some 13\<rparr> (newApiClient None 1000))
     = Inl (Error ''Invalid month'')
   \<and> fst (fetchSemesterProgramSubjects (answering (Response (Arr [])) 40) None (newApiClient None 1000))
     = Inl (Error ''Invalid semesterProgramId'')
   \<and> fst (checkSemesterProgramPublished (answering (Response (Bool True)) 40) (Some (- 3))
        (newApiClient None 1000))
     = Inl (Error ''Invalid semesterProgramId'')
   \<and> fst (findGroupsByCourse (answering (Response (Arr [])) 40)
        \<lparr>courseId = Some 4, semesterId = Some 0, programId = Some 2\<rparr> (newApiClient None 1000))
     = Inl (Error ''Invalid semesterId'')
   \<and> fst (findCoursesByProgram (answering (Response (Arr [])) 40)
        \<lparr>cbpSemesterId = Some 4, cbpProgramId = None\<rparr> (newApiClient None 1000))
     = Inl (Error ''Invalid programId'')"
  using validation_precedes_network
    [of "\<lparr>semesterProgramId = Some 0, year = Some 2024, month = Some 5\<rparr>"
        "answering (Response (Arr [])) 40" "newApiClient None 1000" None
        "\<lparr>courseId = Some 4, semesterId = Some 0, programId = Some 2\<rparr>"
        "\<lparr>cbpSemesterId = Some 4, cbpProgramId = None\<rparr>"]
    validation_precedes_network
    [of "\<lparr>semesterProgramId = Some 7, year = Some 1999, month = Some 5\<rparr>"
        "answering (Response (Arr [])) 40" "newApiClient None 1000" None]
    validation_precedes_network
    [of "\<lparr>semesterProgramId = Some 7, year = Some 2024, month = Some 13\<rparr>"
        "answering (Response (Arr [])) 40" "newApiClient None 1000" None]
    validation_precedes_network
    [of _ "answering (Response (Bool True)) 40" "newApiClient None 1000" "Some (- 3)"]
  by (simp add: missingOrNonPositive_def missingOrOutside_def newApiClient_def)

section \<open>A cached \<open>false\<close> is a hit\<close>

text \<open>
  Claim C8. For \<^verbatim>\<open>checkSemesterProgramPublished\<close> a cached \<^verbatim>\<open>false\<close> is a hit,
  not an absent entry. First: with a valid \<^verbatim>\<open>semesterProgramId\<close> and an entry holding
  \<^verbatim>\<open>false\<close> that is younger than the time-to-live, the call returns \<^verbatim>\<open>false\<close> and
  leaves the client as it was, so no request is sent. Second: when a first call misses and
  the upstream body is falsy, it returns \<^verbatim>\<open>false\<close> after one request, and a second
  call with the same \<^verbatim>\<open>semesterProgramId\<close>, less than the time-to-live after the entry
  was written, returns \<^verbatim>\<open>false\<close> again without a request.
\<close>

theorem cached_false_is_hit:
  "(\<not> missingOrNonPositive i \<and> cache c (publishedCacheKey i) = Some e \<and> data e = Bool False
      \<and> now c - timestamp e < cacheTimeout c
    \<longrightarrow> checkSemesterProgramPublished tr i c = (Inr (Bool False), c))
 \<and> (\<not> missingOrNonPositive i \<and> fst (getFromCache (publishedCacheKey i) c) = Undefined
      \<and> tr (publishedRequest i) (now c) = (Response d, t1) \<and> \<not> truthy d
      \<and> checkSemesterProgramPublished tr i c = (r1, c1) \<and> t2 - t1 < cacheTimeout c
    \<longrightarrow> r1 = Inr (Bool False) \<and> sent c1 = sent c @ [publishedRequest i]
        \<and> checkSemesterProgramPublished tr2 i (c1\<lparr>now := t2\<rparr>)
            = (Inr (Bool False), c1\<lparr>now := t2\<rparr>))"
proof -
  have hit: "checkSemesterProgramPublished tr i c = (Inr (Bool False), c)"
    if "\<not> missingOrNonPositive i" "cache c (publishedCacheKey i) = Some e"
      "data e = Bool False" "now c - timestamp e < cacheTimeout c"
    using published_hit[of i c e tr] that by (simp add: notPositive_iff)
  have twice: "r1 = Inr (Bool False) \<and> sent c1 = sent c @ [publishedRequest i]
        \<and> checkSemesterProgramPublished tr2 i (c1\<lparr>now := t2\<rparr>)
            = (Inr (Bool False), c1\<lparr>now := t2\<rparr>)"
    if "\<not> missingOrNonPositive i" "fst (getFromCache (publishedCacheKey i) c) = Undefined"
      "tr (publishedRequest i) (now c) = (Response d, t1)" "\<not> truthy d"
      "checkSemesterProgramPublished tr i c = (r1, c1)" "t2 - t1 < cacheTimeout c"
  proof -
    have v: "\<not> notPositive i" using that(1) by (simp add: notPositive_iff)
    show ?thesis
      using published_once[where tr=tr and ?tr2.0=tr2, OF v that(2) that(3) that(5) that(6)]
        that(4)
      by simp
  qed
  show ?thesis using hit twice by blast
qed

theorem cached_false_is_hit_witness:
  "checkSemesterProgramPublished (answering (AxiosError ''offline'') 10) (Some 5)
     ((newApiClient None 0)
        \<lparr>now := 1000,
         cache := [publishedCacheKey (Some 5) \<mapsto> \<lparr>data = Bool False, timestamp = 40\<rparr>]\<rparr>)
     = (Inr (Bool False),
        (newApiClient None 0)
          \<lparr>now := 1000,
           cache := [publishedCacheKey (Some 5) \<mapsto> \<lparr>data = Bool False, timestamp = 40\<rparr>]\<rparr>)
   \<and> fst (checkSemesterProgramPublished (answering (Response (Num 0)) 40) (Some 5)
        (newApiClient None 0)) = Inr (Bool False)
   \<and> sent (snd (checkSemesterProgramPublished (answering (Response (Num 0)) 40) (Some 5)
        (newApiClient None 0))) = [publishedRequest (Some 5)]
   \<and> checkSemesterProgramPublished (answering (AxiosError ''offline'') 10) (Some 5)
        ((snd (checkSemesterProgramPublished (answering (Response (Num 0)) 40) (Some 5)
            (newApiClient None 0)))\<lparr>now := 1000\<rparr>)
     = (Inr (Bool False),
        (snd (checkSemesterProgramPublished (answering (Response (Num 0)) 40) (Some 5)
            (newApiClient None 0)))\<lparr>now := 1000\<rparr>)"
  using cached_false_is_hit
    [where i = "Some 5" and tr = "answering (Response (Num 0)) 40"
       and ?tr2.0 = "answering (AxiosError ''offline'') 10"
       and c = "newApiClient None 0" and d = "Num 0" and ?t1.0 = 40 and ?t2.0 = 1000
       and ?r1.0 = "fst (checkSemesterProgramPublished (answering (Response (Num 0)) 40) (Some 5)
            (newApiClient None 0))"
       and ?c1.0 = "snd (checkSemesterProgramPublished (answering (Response (Num 0)) 40) (Some 5)
            (newApiClient None 0))"]
    cached_false_is_hit
    [where i = "Some 5" and tr = "answering (AxiosError ''offline'') 10"
       and c = "(newApiClient None 0)
        \<lparr>now := 1000,
         cache := [publishedCacheKey (Some 5) \<mapsto> \<lparr>data = Bool False, timestamp = 40\<rparr>]\<rparr>"
       and e = "\<lparr>data = Bool False, timestamp = 40\<rparr>"]
  by (simp add: missingOrNonPositive_def newApiClient_def answering_def getFromCache_def)

section \<open>Two identical calls, one request\<close>

text \<open>
  Claim C9. The cache key of each operation is a function of its parameters only, so two
  calls with the same parameters use the same key. For each of the five operations: when
  a first call with valid parameters misses the cache and the upstream answers (for the
  list operations, with a body that is not nullish), the call succeeds after handing
  exactly one request to the transport; a second call with the same parameters, made less
  than the time-to-live after the entry was written, returns the same value and leaves the
  client as it was, whatever the transport would have done. The log of requests after both
  calls is the log before them with that one request appended.
\<close>

theorem identical_calls_one_request:
  "(validateSemesterProgramEventsParams ep = None
      \<and> \<not> truthy (fst (getFromCache (eventsCacheKey ep) c))
      \<and> tr (eventsRequest ep) (now c) = (Response d, t1) \<and> \<not> isNullish d
      \<and> fetchSemesterProgramEvents tr ep c = (r1, c1) \<and> t2 - t1 < cacheTimeout c
    \<longrightarrow> r1 = Inr (if isArray d then d else Arr []) \<and> sent c1 = sent c @ [eventsRequest ep]
        \<and> fetchSemesterProgramEvents tr2 ep (c1\<lparr>now := t2\<rparr>) = (r1, c1\<lparr>now := t2\<rparr>))
 \<and> (\<not> notPositive i
      \<and> \<not> truthy (fst (getFromCache (subjectsCacheKey i) c))
      \<and> tr (subjectsRequest i) (now c) = (Response d, t1) \<and> \<not> isNullish d
      \<and> fetchSemesterProgramSubjects tr i c = (r1, c1) \<and> t2 - t1 < cacheTimeout c
    \<longrightarrow> r1 = Inr (if isArray d then d else Arr []) \<and> sent c1 = sent c @ [subjectsRequest i]
        \<and> fetchSemesterProgramSubjects tr2 i (c1\<lparr>now := t2\<rparr>) = (r1, c1\<lparr>now := t2\<rparr>))
 \<and> (\<not> notPositive i
      \<and> fst (getFromCache (publishedCacheKey i) c) = Undefined
      \<and> tr (publishedRequest i) (now c) = (Response d, t1)
      \<and> checkSemesterProgramPublished tr i c = (r1, c1) \<and> t2 - t1 < cacheTimeout c
    \<longrightarrow> r1 = Inr (Bool (\<not> isNullish d \<and> truthy d))
        \<and> sent c1 = sent c @ [publishedRequest i]
        \<and> checkSemesterProgramPublished tr2 i (c1\<lparr>now := t2\<rparr>) = (r1, c1\<lparr>now := t2\<rparr>))
 \<and> (validateGroupsByCourseParams gp = None
      \<and> \<not> truthy (fst (getFromCache (groupsCacheKey gp) c))
      \<and> tr (groupsRequest gp) (now c) = (Response d, t1) \<and> \<not> isNullish d
      \<and> findGroupsByCourse tr gp c = (r1, c1) \<and> t2 - t1 < cacheTimeout c
    \<longrightarrow> r1 = Inr (if isArray d then d else Arr []) \<and> sent c1 = sent c @ [groupsRequest gp]
        \<and> findGroupsByCourse tr2 gp (c1\<lparr>now := t2\<rparr>) = (r1, c1\<lparr>now := t2\<rparr>))
 \<and> (validateCoursesByProgramParams cp = None
      \<and> \<not> truthy (fst (getFromCache (coursesCacheKey cp) c))
      \<and> tr (coursesRequest cp) (now c) = (Response d, t1) \<and> \<not> isNullish d
      \<and> findCoursesByProgram tr cp c = (r1, c1) \<and> t2 - t1 < cacheTimeout c
    \<longrightarrow> r1 = Inr (if isArray d then d else Arr []) \<and> sent c1 = sent c @ [coursesRequest cp]
        \<and> findCoursesByProgram tr2 cp (c1\<lparr>now := t2\<rparr>) = (r1, c1\<lparr>now := t2\<rparr>))"
proof -
  have ev: "r1 = Inr (if isArray d then d else Arr []) \<and> sent c1 = sent c @ [eventsRequest ep]
        \<and> fetchSemesterProgramEvents tr2 ep (c1\<lparr>now := t2\<rparr>) = (r1, c1\<lparr>now := t2\<rparr>)"
    if "validateSemesterProgramEventsParams ep = None"
      "\<not> truthy (fst (getFromCache (eventsCacheKey ep) c))"
      "tr (eventsRequest ep) (now c) = (Response d, t1)" "\<not> isNullish d"
      "fetchSemesterProgramEvents tr ep c = (r1, c1)" "t2 - t1 < cacheTimeout c"
    using cachedListCall_once[where tr=tr and ?tr2.0=tr2, OF that(2) that(3) that(4) _ that(6)]
      that(1) that(5)
    by (simp add: events_unfold)
  have su: "r1 = Inr (if isArray d then d else Arr []) \<and> sent c1 = sent c @ [subjectsRequest i]
        \<and> fetchSemesterProgramSubjects tr2 i (c1\<lparr>now := t2\<rparr>) = (r1, c1\<lparr>now := t2\<rparr>)"
    if "\<not> notPositive i"
      "\<not> truthy (fst (getFromCache (subjectsCacheKey i) c))"
      "tr (subjectsRequest i) (now c) = (Response d, t1)" "\<not> isNullish d"
      "fetchSemesterProgramSubjects tr i c = (r1, c1)" "t2 - t1 < cacheTimeout c"
    using cachedListCall_once[where tr=tr and ?tr2.0=tr2, OF that(2) that(3) that(4) _ that(6)]
      that(1) that(5)
    by (simp add: subjects_unfold)
  have pu: "r1 = Inr (Bool (\<not> isNullish d \<and> truthy d))
        \<and> sent c1 = sent c @ [publishedRequest i]
        \<and> checkSemesterProgramPublished tr2 i (c1\<lparr>now := t2\<rparr>) = (r1, c1\<lparr>now := t2\<rparr>)"
    if "\<not> notPositive i" "fst (getFromCache (publishedCacheKey i) c) = Undefined"
      "tr (publishedRequest i) (now c) = (Response d, t1)"
      "checkSemesterProgramPublished tr i c = (r1, c1)" "t2 - t1 < cacheTimeout c"
    using published_once[where tr=tr and ?tr2.0=tr2, OF that] .
  have gr: "r1 = Inr (if isArray d then d else Arr []) \<and> sent c1 = sent c @ [groupsRequest gp]
        \<and> findGroupsByCourse tr2 gp (c1\<lparr>now := t2\<rparr>) = (r1, c1\<lparr>now := t2\<rparr>)"
    if "validateGroupsByCourseParams gp = None"
      "\<not> truthy (fst (getFromCache (groupsCacheKey gp) c))"
      "tr (groupsRequest gp) (now c) = (Response d, t1)" "\<not> isNullish d"
      "findGroupsByCourse tr gp c = (r1, c1)" "t2 - t1 < cacheTimeout c"
    using cachedListCall_once[where tr=tr and ?tr2.0=tr2, OF that(2) that(3) that(4) _ that(6)]
      that(1) that(5)
    by (simp add: groups_unfold)
  have co: "r1 = Inr (if isArray d then d else Arr []) \<and> sent c1 = sent c @ [coursesRequest cp]
        \<and> findCoursesByProgram tr2 cp (c1\<lparr>now := t2\<rparr>) = (r1, c1\<lparr>now := t2\<rparr>)"
    if "validateCoursesByProgramParams cp = None"
      "\<not> truthy (fst (getFromCache (coursesCacheKey cp) c))"
      "tr (coursesRequest cp) (now c) = (Response d, t1)" "\<not> isNullish d"
      "findCoursesByProgram tr cp c = (r1, c1)" "t2 - t1 < cacheTimeout c"
    using cachedListCall_once[where tr=tr and ?tr2.0=tr2, OF that(2) that(3) that(4) _ that(6)]
      that(1) that(5)
    by (simp add: courses_unfold)
  show ?thesis
    using ev su pu gr co by blast
qed

theorem identical_calls_one_request_witness:
  "fetchSemesterProgramEvents (answering (AxiosError ''offline'') 10)
      \<lparr>semesterProgramId = Some 12, year = Some 2024, month = Some 5\<rparr>
      ((snd (fetchSemesterProgramEvents (answering (Response (Arr [Num 1])) 40)
          \<lparr>semesterProgramId = Some 12, year = Some 2024, month = Some 5\<rparr>
          (newApiClient None 0)))\<lparr>now := 1000\<rparr>)
     = (Inr (Arr [Num 1]),
        (snd (fetchSemesterProgramEvents (answering (Response (Arr [Num 1])) 40)
          \<lparr>semesterProgramId = Some 12, year = Some 2024, month = Some 5\<rparr>
          (newApiClient None 0)))\<lparr>now := 1000\<rparr>)
   \<and> sent (snd (fetchSemesterProgramEvents (answering (Response (Arr [Num 1])) 40)
          \<lparr>semesterProgramId = Some 12, year = Some 2024, month = Some 5\<rparr>
          (newApiClient None 0)))
     = [eventsRequest \<lparr>semesterProgramId = Some 12, year = Some 2024, month = Some 5\<rparr>]
   \<and> fetchSemesterProgramSubjects (answering (AxiosError ''offline'') 10) (Some 12)
      ((snd (fetchSemesterProgramSubjects (answering (Response (Str ''none'')) 40) (Some 12)
          (newApiClient None 0)))\<lparr>now := 1000\<rparr>)
     = (Inr (Arr []),
        (snd (fetchSemesterProgramSubjects (answering (Response (Str ''none'')) 40) (Some 12)
          (newApiClient None 0)))\<lparr>now := 1000\<rparr>)
   \<and> checkSemesterProgramPublished (answering (AxiosError ''offline'') 10) (Some 12)
      ((snd (checkSemesterProgramPublished (answering (Response (Bool True)) 40) (Some 12)
          (newApiClient None 0)))\<lparr>now := 1000\<rparr>)
     = (Inr (Bool True),
        (snd (checkSemesterProgramPublished (answering (Response (Bool True)) 40) (Some 12)
          (newApiClient None 0)))\<lparr>now := 1000\<rparr>)
   \<and> findGroupsByCourse (answering (AxiosError ''offline'') 10)
      \<lparr>courseId = Some 3, semesterId = Some 28, programId = Some 7\<rparr>
      ((snd (findGroupsByCourse (answering (Response (Arr [])) 40)
          \<lparr>courseId = Some 3, semesterId = Some 28, programId = Some 7\<rparr>
          (newApiClient None 0)))\<lparr>now := 1000\<rparr>)
     = (Inr (Arr []),
        (snd (findGroupsByCourse (answering (Response (Arr [])) 40)
          \<lparr>courseId = Some 3, semesterId = Some 28, programId = Some 7\<rparr>
          (newApiClient None 0)))\<lparr>now := 1000\<rparr>)
   \<and> findCoursesByProgram (answering (AxiosError ''offline'') 10)
      \<lparr>cbpSemesterId = Some 28, cbpProgramId = Some 7\<rparr>
      ((snd (findCoursesByProgram (answering (Response (Arr [Num 9])) 40)
          \<lparr>cbpSemesterId = Some 28, cbpProgramId = Some 7\<rparr>
          (newApiClient None 0)))\<lparr>now := 1000\<rparr>)
     = (Inr (Arr [Num 9]),
        (snd (findCoursesByProgram (answering (Response (Arr [Num 9])) 40)
          \<lparr>cbpSemesterId = Some 28, cbpProgramId = Some 7\<rparr>
          (newApiClient None 0)))\<lparr>now := 1000\<rparr>)"
  using
    identical_calls_one_request
      [where ep = "\<lparr>semesterProgramId = Some 12, year = Some 2024, month = Some 5\<rparr>"
         and tr = "answering (Response (Arr [Num 1])) 40"
         and ?tr2.0 = "answering (AxiosError ''offline'') 10"
         and c = "newApiClient None 0" and d = "Arr [Num 1]" and ?t1.0 = 40 and ?t2.0 = 1000
         and ?r1.0 = "fst (fetchSemesterProgramEvents (answering (Response (Arr [Num 1])) 40)
            \<lparr>semesterProgramId = Some 12, year = Some 2024, month = Some 5\<rparr>
            (newApiClient None 0))"
         and ?c1.0 = "snd (fetchSemesterProgramEvents (answering (Response (Arr [Num 1])) 40)
            \<lparr>semesterProgramId = Some 12, year = Some 2024, month = Some 5\<rparr>
            (newApiClient None 0))", THEN conjunct1]
    identical_calls_one_request
      [where i = "Some 12"
         and tr = "answering (Response (Str ''none'')) 40"
         and ?tr2.0 = "answering (AxiosError ''offline'') 10"
         and c = "newApiClient None 0" and d = "Str ''none''" and ?t1.0 = 40 and ?t2.0 = 1000
         and ?r1.0 = "fst (fetchSemesterProgramSubjects (answering (Response (Str ''none'')) 40)
            (Some 12) (newApiClient None 0))"
         and ?c1.0 = "snd (fetchSemesterProgramSubjects (answering (Response (Str ''none'')) 40)
            (Some 12) (newApiClient None 0))", THEN conjunct2, THEN conjunct1]
    identical_calls_one_request
      [where i = "Some 12"
         and tr = "answering (Response (Bool True)) 40"
         and ?tr2.0 = "answering (AxiosError ''offline'') 10"
         and c = "newApiClient None 0" and d = "Bool True" and ?t1.0 = 40 and ?t2.0 = 1000
         and ?r1.0 = "fst (checkSemesterProgramPublished (answering (Response (Bool True)) 40)
            (Some 12) (newApiClient None 0))"
         and ?c1.0 = "snd (checkSemesterProgramPublished (answering (Response (Bool True)) 40)
            (Some 12) (newApiClient None 0))", THEN conjunct2, THEN conjunct2, THEN conjunct1]
    identical_calls_one_request
      [where gp = "\<lparr>courseId = Some 3, semesterId = Some 28, programId = Some 7\<rparr>"
         and tr = "answering (Response (Arr [])) 40"
         and ?tr2.0 = "answering (AxiosError ''offline'') 10"
         and c = "newApiClient None 0" and d = "Arr []" and ?t1.0 = 40 and ?t2.0 = 1000
         and ?r1.0 = "fst (findGroupsByCourse (answering (Response (Arr [])) 40)
            \<lparr>courseId = Some 3, semesterId = Some 28, programId = Some 7\<rparr>
            (newApiClient None 0))"
         and ?c1.0 = "snd (findGroupsByCourse (answering (Response (Arr [])) 40)
            \<lparr>courseId = Some 3, semesterId = Some 28, programId = Some 7\<rparr>
            (newApiClient None 0))",
         THEN conjunct2, THEN conjunct2, THEN conjunct2, THEN conjunct1]
    identical_calls_one_request
      [where cp = "\<lparr>cbpSemesterId = Some 28, cbpProgramId = Some 7\<rparr>"
         and tr = "answering (Response (Arr [Num 9])) 40"
         and ?tr2.0 = "answering (AxiosError ''offline'') 10"
         and c = "newApiClient None 0" and d = "Arr [Num 9]" and ?t1.0 = 40 and ?t2.0 = 1000
         and ?r1.0 = "fst (findCoursesByProgram (answering (Response (Arr [Num 9])) 40)
            \<lparr>cbpSemesterId = Some 28, cbpProgramId = Some 7\<rparr>
            (newApiClient None 0))"
         and ?c1.0 = "snd (findCoursesByProgram (answering (Response (Arr [Num 9])) 40)
            \<lparr>cbpSemesterId = Some 28, cbpProgramId = Some 7\<rparr>
            (newApiClient None 0))",
         THEN conjunct2, THEN conjunct2, THEN conjunct2, THEN conjunct2]
  by (simp add: validateSemesterProgramEventsParams_def validateGroupsByCourseParams_def
      validateCoursesByProgramParams_def notPositive_def notWithin_def
      newApiClient_def answering_def getFromCache_def)

section \<open>Nullish and malformed response bodies\<close>

text \<open>
  Claim C2, as amended. On a cache miss with valid parameters, the four list operations
  (events, subjects, groups, courses) throw \<^verbatim>\<open>Invalid response data\<close> when the upstream
  body is \<^verbatim>\<open>null\<close> or \<^verbatim>\<open>undefined\<close>, return the body when it is an array, and
  return the empty array for any other body; a rejected transport call gives
  \<^verbatim>\<open>API request failed: ...\<close>, which is never the invalid-response error.
  \<^verbatim>\<open>checkSemesterProgramPublished\<close> throws nothing for a nullish body: it returns
  \<^verbatim>\<open>false\<close> for it, and the Boolean value of any other body.
\<close>

theorem null_body_and_coercion:
  "(validateSemesterProgramEventsParams ep = None
      \<and> \<not> truthy (fst (getFromCache (eventsCacheKey ep) c))
      \<and> tr (eventsRequest ep) (now c) = (out, t1)
    \<longrightarrow> fst (fetchSemesterProgramEvents tr ep c) =
         (case out of
            Response d \<Rightarrow>
              if isNullish d then Inl (Error ''Invalid response data'')
              else if isArray d then Inr d else Inr (Arr [])
          | AxiosError m \<Rightarrow> Inl (Error (''API request failed: '' @ m))
          | OtherError e \<Rightarrow> Inl e))
 \<and> (\<not> notPositive i
      \<and> \<not> truthy (fst (getFromCache (subjectsCacheKey i) c))
      \<and> tr (subjectsRequest i) (now c) = (out, t1)
    \<longrightarrow> fst (fetchSemesterProgramSubjects tr i c) =
         (case out of
            Response d \<Rightarrow>
              if isNullish d then Inl (Error ''Invalid response data'')
              else if isArray d then Inr d else Inr (Arr [])
          | AxiosError m \<Rightarrow> Inl (Error (''API request failed: '' @ m))
          | OtherError e \<Rightarrow> Inl e))
 \<and> (validateGroupsByCourseParams gp = None
      \<and> \<not> truthy (fst (getFromCache (groupsCacheKey gp) c))
      \<and> tr (groupsRequest gp) (now c) = (out, t1)
    \<longrightarrow> fst (findGroupsByCourse tr gp c) =
         (case out of
            Response d \<Rightarrow>
              if isNullish d then Inl (Error ''Invalid response data'')
              else if isArray d then Inr d else Inr (Arr [])
          | AxiosError m \<Rightarrow> Inl (Error (''API request failed: '' @ m))
          | OtherError e \<Rightarrow> Inl e))
 \<and> (validateCoursesByProgramParams cp = None
      \<and> \<not> truthy (fst (getFromCache (coursesCacheKey cp) c))
      \<and> tr (coursesRequest cp) (now c) = (out, t1)
    \<longrightarrow> fst (findCoursesByProgram tr cp c) =
         (case out of
            Response d \<Rightarrow>
              if isNullish d then Inl (Error ''Invalid response data'')
              else if isArray d then Inr d else Inr (Arr [])
          | AxiosError m \<Rightarrow> Inl (Error (''API request failed: '' @ m))
          | OtherError e \<Rightarrow> Inl e))
 \<and> (\<not> notPositive i
      \<and> fst (getFromCache (publishedCacheKey i) c) = Undefined
      \<and> tr (publishedRequest i) (now c) = (out, t1)
    \<longrightarrow> fst (checkSemesterProgramPublished tr i c) =
         (case out of
            Response d \<Rightarrow> Inr (Bool (\<not> isNullish d \<and> truthy d))
          | AxiosError m \<Rightarrow> Inl (Error (''API request failed: '' @ m))
          | OtherError e \<Rightarrow> Inl e))
 \<and> Error ''Invalid response data'' \<noteq> Error (''API request failed: '' @ m)"
proof -
  have ev: "fst (fetchSemesterProgramEvents tr ep c) =
         (case out of
            Response d \<Rightarrow>
              if isNullish d then Inl (Error ''Invalid response data'')
              else if isArray d then Inr d else Inr (Arr [])
          | AxiosError m \<Rightarrow> Inl (Error (''API request failed: '' @ m))
          | OtherError e \<Rightarrow> Inl e)"
    if "validateSemesterProgramEventsParams ep = None" "\<not> truthy (fst (getFromCache (eventsCacheKey ep) c))"
      "tr (eventsRequest ep) (now c) = (out, t1)"
    using cachedListCall_result[where tr=tr, OF that(2) that(3)] that(1)
    by (simp add: events_unfold)
  have su: "fst (fetchSemesterProgramSubjects tr i c) =
         (case out of
            Response d \<Rightarrow>
              if isNullish d then Inl (Error ''Invalid response data'')
              else if isArray d then Inr d else Inr (Arr [])
          | AxiosError m \<Rightarrow> Inl (Error (''API request failed: '' @ m))
          | OtherError e \<Rightarrow> Inl e)"
    if "\<not> notPositive i" "\<not> truthy (fst (getFromCache (subjectsCacheKey i) c))"
      "tr (subjectsRequest i) (now c) = (out, t1)"
    using cachedListCall_result[where tr=tr, OF that(2) that(3)] that(1)
    by (simp add: subjects_unfold)
  have gr: "fst (findGroupsByCourse tr gp c) =
         (case out of
            Response d \<Rightarrow>
              if isNullish d then Inl (Error ''Invalid response data'')
              else if isArray d then Inr d else Inr (Arr [])
          | AxiosError m \<Rightarrow> Inl (Error (''API request failed: '' @ m))
          | OtherError e \<Rightarrow> Inl e)"
    if "validateGroupsByCourseParams gp = None" "\<not> truthy (fst (getFromCache (groupsCacheKey gp) c))"
      "tr (groupsRequest gp) (now c) = (out, t1)"
    using cachedListCall_result[where tr=tr, OF that(2) that(3)] that(1)
    by (simp add: groups_unfold)
  have co: "fst (findCoursesByProgram tr cp c) =
         (case out of
            Response d \<Rightarrow>
              if isNullish d then Inl (Error ''Invalid response data'')
              else if isArray d then Inr d else Inr (Arr [])
          | AxiosError m \<Rightarrow> Inl (Error (''API request failed: '' @ m))
          | OtherError e \<Rightarrow> Inl e)"
    if "validateCoursesByProgramParams cp = None" "\<not> truthy (fst (getFromCache (coursesCacheKey cp) c))"
      "tr (coursesRequest cp) (now c) = (out, t1)"
    using cachedListCall_result[where tr=tr, OF that(2) that(3)] that(1)
    by (simp add: courses_unfold)
  have pu: "fst (checkSemesterProgramPublished tr i c) =
         (case out of
            Response d \<Rightarrow> Inr (Bool (\<not> isNullish d \<and> truthy d))
          | AxiosError m \<Rightarrow> Inl (Error (''API request failed: '' @ m))
          | OtherError e \<Rightarrow> Inl e)"
    if a1: "\<not> notPositive i" and a2: "fst (getFromCache (publishedCacheKey i) c) = Undefined"
      and a3: "tr (publishedRequest i) (now c) = (out, t1)"
  proof -
    obtain c0 where g: "getFromCache (publishedCacheKey i) c = (Undefined, c0)"
      using a2 by (cases "getFromCache (publishedCacheKey i) c") simp
    show ?thesis
      using published_miss[where tr=tr, OF a1 g a3] by (simp split: outcome.splits)
  qed
  have di: "Error ''Invalid response data'' \<noteq> Error (''API request failed: '' @ m)"
    by simp
  show ?thesis
    using ev su gr co pu di by blast
qed

text \<open>
  The claim as first stated fails for \<^verbatim>\<open>checkSemesterProgramPublished\<close>: on a miss
  with the body \<^verbatim>\<open>null\<close> it returns \<^verbatim>\<open>false\<close>, and caches it.
\<close>

theorem published_null_body_counterexample:
  "fst (checkSemesterProgramPublished (answering (Response Null) 40) (Some 12)
      (newApiClient None 0)) = Inr (Bool False)
   \<and> fst (checkSemesterProgramPublished (answering (Response Null) 40) (Some 12)
      (newApiClient None 0)) \<noteq> Inl (Error ''Invalid response data'')
   \<and> cache (snd (checkSemesterProgramPublished (answering (Response Null) 40) (Some 12)
      (newApiClient None 0))) (publishedCacheKey (Some 12))
     = Some \<lparr>data = Bool False, timestamp = 40\<rparr>"
  by (simp add: checkSemesterProgramPublished_def notPositive_def getFromCache_def
      newApiClient_def answering_def post_def setCache_def Let_def)

theorem null_body_and_coercion_witness:
  "fst (fetchSemesterProgramEvents (answering (Response Null) 40)
      \<lparr>semesterProgramId = Some 12, year = Some 2024, month = Some 5\<rparr> (newApiClient None 0))
     = Inl (Error ''Invalid response data'')
   \<and> fst (fetchSemesterProgramSubjects (answering (Response (Obj [])) 40) (Some 12)
      (newApiClient None 0)) = Inr (Arr [])
   \<and> fst (findGroupsByCourse (answering (AxiosError ''timeout'') 40)
      \<lparr>courseId = Some 3, semesterId = Some 28, programId = Some 7\<rparr> (newApiClient None 0))
     = Inl (Error ''API request failed: timeout'')
   \<and> fst (findCoursesByProgram (answering (Response Undefined) 40)
      \<lparr>cbpSemesterId = Some 28, cbpProgramId = Some 7\<rparr> (newApiClient None 0))
     = Inl (Error ''Invalid response data'')
   \<and> fst (checkSemesterProgramPublished (answering (Response (Str ''yes'')) 40) (Some 12)
      (newApiClient None 0)) = Inr (Bool True)"
  using
    null_body_and_coercion
      [where ep = "\<lparr>semesterProgramId = Some 12, year = Some 2024, month = Some 5\<rparr>"
         and tr = "answering (Response Null) 40" and c = "newApiClient None 0"
         and out = "Response Null" and ?t1.0 = 40, THEN conjunct1]
    null_body_and_coercion
      [where i = "Some 12"
         and tr = "answering (Response (Obj [])) 40" and c = "newApiClient None 0"
         and out = "Response (Obj [])" and ?t1.0 = 40, THEN conjunct2, THEN conjunct1]
    null_body_and_coercion
      [where gp = "\<lparr>courseId = Some 3, semesterId = Some 28, programId = Some 7\<rparr>"
         and tr = "answering (AxiosError ''timeout'') 40" and c = "newApiClient None 0"
         and out = "AxiosError ''timeout''" and ?t1.0 = 40,
         THEN conjunct2, THEN conjunct2, THEN conjunct1]
    null_body_and_coercion
      [where cp = "\<lparr>cbpSemesterId = Some 28, cbpProgramId = Some 7\<rparr>"
         and tr = "answering (Response Undefined) 40" and c = "newApiClient None 0"
         and out = "Response Undefined" and ?t1.0 = 40,
         THEN conjunct2, THEN conjunct2, THEN conjunct2, THEN conjunct1]
    null_body_and_coercion
      [where i = "Some 12"
         and tr = "answering (Response (Str ''yes'')) 40" and c = "newApiClient None 0"
         and out = "Response (Str ''yes'')" and ?t1.0 = 40,
         THEN conjunct2, THEN conjunct2, THEN conjunct2, THEN conjunct2, THEN conjunct1]
  by (simp add: validateSemesterProgramEventsParams_def validateGroupsByCourseParams_def
      validateCoursesByProgramParams_def notPositive_def notWithin_def
      newApiClient_def answering_def getFromCache_def)

section \<open>The cache state after a failed call\<close>

text \<open>
  Claim C6. Whenever an operation of the live-data client or of the discovery service
  fails (validation, an invalid base URL, the transport, a nullish body or the parser), the
  cache state is what it was before the call. No entry has been written: every slot holds
  the entry it held before, or nothing. The time-to-live is the same. At the time of the
  call and at any later time \<open>t\<close>, the live entries are the same as without the call, and
  every read returns what it would have returned without the call. (The one thing a failed
  call can have done is to drop the entry of its own slot that had already expired, which
  the specification counts as an empty slot.)
\<close>

theorem failure_keeps_cache_state:
  "(fetchSemesterProgramEvents tr ep c = (Inl err, c1) \<longrightarrow>
      cacheTimeout c1 = cacheTimeout c
    \<and> (cache c1 k = cache c k \<or> cache c1 k = None)
    \<and> (now c \<le> t \<longrightarrow>
         liveCache t c1 = liveCache t c
       \<and> fst (getFromCache k (c1\<lparr>now := t\<rparr>)) = fst (getFromCache k (c\<lparr>now := t\<rparr>))))
 \<and> (fetchSemesterProgramSubjects tr i c = (Inl err, c1) \<longrightarrow>
      cacheTimeout c1 = cacheTimeout c
    \<and> (cache c1 k = cache c k \<or> cache c1 k = None)
    \<and> (now c \<le> t \<longrightarrow>
         liveCache t c1 = liveCache t c
       \<and> fst (getFromCache k (c1\<lparr>now := t\<rparr>)) = fst (getFromCache k (c\<lparr>now := t\<rparr>))))
 \<and> (checkSemesterProgramPublished tr i c = (Inl err, c1) \<longrightarrow>
      cacheTimeout c1 = cacheTimeout c
    \<and> (cache c1 k = cache c k \<or> cache c1 k = None)
    \<and> (now c \<le> t \<longrightarrow>
         liveCache t c1 = liveCache t c
       \<and> fst (getFromCache k (c1\<lparr>now := t\<rparr>)) = fst (getFromCache k (c\<lparr>now := t\<rparr>))))
 \<and> (findGroupsByCourse tr gp c = (Inl err, c1) \<longrightarrow>
      cacheTimeout c1 = cacheTimeout c
    \<and> (cache c1 k = cache c k \<or> cache c1 k = None)
    \<and> (now c \<le> t \<longrightarrow>
         liveCache t c1 = liveCache t c
       \<and> fst (getFromCache k (c1\<lparr>now := t\<rparr>)) = fst (getFromCache k (c\<lparr>now := t\<rparr>))))
 \<and> (findCoursesByProgram tr cp c = (Inl err, c1) \<longrightarrow>
      cacheTimeout c1 = cacheTimeout c
    \<and> (cache c1 k = cache c k \<or> cache c1 k = None)
    \<and> (now c \<le> t \<longrightarrow>
         liveCache t c1 = liveCache t c
       \<and> fst (getFromCache k (c1\<lparr>now := t\<rparr>)) = fst (getFromCache k (c\<lparr>now := t\<rparr>))))
 \<and> (discoverPeriods hp u localTime validUrl dtr ds = (Inl err, ds1) \<longrightarrow>
      programsCache ds1 = programsCache ds
    \<and> discoveryCacheTimeout ds1 = discoveryCacheTimeout ds
    \<and> (periodsCache ds1 = periodsCache ds \<or> periodsCache ds1 = None)
    \<and> (now ds \<le> t \<longrightarrow>
         livePeriods t ds1 = livePeriods t ds
       \<and> livePrograms t ds1 = livePrograms t ds
       \<and> fst (getCachedPeriods (ds1\<lparr>now := t\<rparr>)) = fst (getCachedPeriods (ds\<lparr>now := t\<rparr>))))
 \<and> (discoverPrograms hp u validUrl dtr periodId ds = (Inl err, ds1) \<longrightarrow>
      periodsCache ds1 = periodsCache ds
    \<and> discoveryCacheTimeout ds1 = discoveryCacheTimeout ds
    \<and> (programsCache ds1 q = programsCache ds q \<or> programsCache ds1 q = None)
    \<and> (now ds \<le> t \<longrightarrow>
         livePeriods t ds1 = livePeriods t ds
       \<and> livePrograms t ds1 = livePrograms t ds
       \<and> fst (getCachedPrograms q (ds1\<lparr>now := t\<rparr>))
           = fst (getCachedPrograms q (ds\<lparr>now := t\<rparr>))))"
proof -
  have same: "cacheTimeout c = cacheTimeout c \<and>
     (cache c = cache c \<or>
      (\<exists>e. cache c key = Some e \<and> cacheTimeout c \<le> now c - timestamp e
           \<and> cache c = (cache c)(key := None)))" for key
    by simp
  have rel_ev: "cacheTimeout c1 = cacheTimeout c \<and>
     (cache c1 = cache c \<or>
      (\<exists>e. cache c (eventsCacheKey ep) = Some e \<and> cacheTimeout c \<le> now c - timestamp e
           \<and> cache c1 = (cache c)(eventsCacheKey ep := None)))"
    if call: "fetchSemesterProgramEvents tr ep c = (Inl err, c1)"
  proof (cases "validateSemesterProgramEventsParams ep")
    case None
    then have "cachedListCall tr (eventsCacheKey ep) (eventsRequest ep) c = (Inl err, c1)"
      using call by (simp add: events_unfold)
    then show ?thesis by (rule cachedListCall_failure)
  next
    case (Some e)
    then have "c1 = c" using call by (simp add: events_unfold)
    then show ?thesis using same by simp
  qed
  have rel_su: "cacheTimeout c1 = cacheTimeout c \<and>
     (cache c1 = cache c \<or>
      (\<exists>e. cache c (subjectsCacheKey i) = Some e \<and> cacheTimeout c \<le> now c - timestamp e
           \<and> cache c1 = (cache c)(subjectsCacheKey i := None)))"
    if call: "fetchSemesterProgramSubjects tr i c = (Inl err, c1)"
  proof (cases "notPositive i")
    case False
    then have "cachedListCall tr (subjectsCacheKey i) (subjectsRequest i) c = (Inl err, c1)"
      using call by (simp add: subjects_unfold)
    then show ?thesis by (rule cachedListCall_failure)
  next
    case True
    then have "c1 = c" using call by (simp add: subjects_unfold)
    then show ?thesis using same by simp
  qed
  have rel_gr: "cacheTimeout c1 = cacheTimeout c \<and>
     (cache c1 = cache c \<or>
      (\<exists>e. cache c (groupsCacheKey gp) = Some e \<and> cacheTimeout c \<le> now c - timestamp e
           \<and> cache c1 = (cache c)(groupsCacheKey gp := None)))"
    if call: "findGroupsByCourse tr gp c = (Inl err, c1)"
  proof (cases "validateGroupsByCourseParams gp")
    case None
    then have "cachedListCall tr (groupsCacheKey gp) (groupsRequest gp) c = (Inl err, c1)"
      using call by (simp add: groups_unfold)
    then show ?thesis by (rule cachedListCall_failure)
  next
    case (Some e)
    then have "c1 = c" using call by (simp add: groups_unfold)
    then show ?thesis using same by simp
  qed
  have rel_co: "cacheTimeout c1 = cacheTimeout c \<and>
     (cache c1 = cache c \<or>
      (\<exists>e. cache c (coursesCacheKey cp) = Some e \<and> cacheTimeout c \<le> now c - timestamp e
           \<and> cache c1 = (cache c)(coursesCacheKey cp := None)))"
    if call: "findCoursesByProgram tr cp c = (Inl err, c1)"
  proof (cases "validateCoursesByProgramParams cp")
    case None
    then have "cachedListCall tr (coursesCacheKey cp) (coursesRequest cp) c = (Inl err, c1)"
      using call by (simp add: courses_unfold)
    then show ?thesis by (rule cachedListCall_failure)
  next
    case (Some e)
    then have "c1 = c" using call by (simp add: courses_unfold)
    then show ?thesis using same by simp
  qed
  note ev = client_failure_kept[OF rel_ev, of k t]
  note su = client_failure_kept[OF rel_su, of k t]
  note pu = client_failure_kept[OF published_failure, of tr i c err c1 k t]
  note gr = client_failure_kept[OF rel_gr, of k t]
  note co = client_failure_kept[OF rel_co, of k t]
  note pe = periods_failure_kept[OF discoverPeriods_failure,
      of hp u localTime validUrl dtr ds err ds1 t]
  note pr = programs_failure_kept[OF discoverPrograms_failure,
      of hp u validUrl dtr periodId ds err ds1 q t]
  show ?thesis
    by (intro conjI; rule impI; (rule ev su pu gr co pe pr; assumption))
qed

theorem failure_keeps_cache_state_witness:
  "fst (fetchSemesterProgramSubjects (answering (AxiosError ''timeout'') 10) (Some 12) agedClient)
     = Inl (Error ''API request failed: timeout'')
   \<and> cache (snd (fetchSemesterProgramSubjects (answering (AxiosError ''timeout'') 10) (Some 12)
        agedClient)) (publishedCacheKey (Some 12))
     = Some \<lparr>data = Bool True, timestamp = 399000\<rparr>
   \<and> cache (snd (fetchSemesterProgramSubjects (answering (AxiosError ''timeout'') 10) (Some 12)
        agedClient)) (subjectsCacheKey (Some 12))
     = None
   \<and> liveCache 400000 (snd (fetchSemesterProgramSubjects (answering (AxiosError ''timeout'') 10)
        (Some 12) agedClient))
     = liveCache 400000 agedClient
   \<and> fst (getFromCache (publishedCacheKey (Some 12))
        ((snd (fetchSemesterProgramSubjects (answering (AxiosError ''timeout'') 10) (Some 12)
           agedClient))\<lparr>now := 400500\<rparr>))
     = fst (getFromCache (publishedCacheKey (Some 12)) (agedClient\<lparr>now := 400500\<rparr>))
   \<and> fst (getFromCache (publishedCacheKey (Some 12)) (agedClient\<lparr>now := 400500\<rparr>)) = Bool True
   \<and> fst (discoverPeriods (fixedParser [] \<lparr>metaStartDate = None, metaEndDate = None\<rparr> [])
        (fixedUtils ''25/26-R'' ''2025/2026'' ''autumn'')
        (\<lambda>ms. \<lparr>dYear = 2025, dMonth = 11, dDay = 3, dMillis = 0\<rparr>)
        (\<lambda>base. base = ''https://nodarbibas.rtu.lv'')
        (answering (Response ''<html>'') 25) (agedService (Some ''not a url'')))
     = Inl (DiscoveryError ''Failed to fetch periods'' (Some (Error ''Invalid URL'')))
   \<and> sent (snd (discoverPeriods (fixedParser [] \<lparr>metaStartDate = None, metaEndDate = None\<rparr> [])
        (fixedUtils ''25/26-R'' ''2025/2026'' ''autumn'')
        (\<lambda>ms. \<lparr>dYear = 2025, dMonth = 11, dDay = 3, dMillis = 0\<rparr>)
        (\<lambda>base. base = ''https://nodarbibas.rtu.lv'')
        (answering (Response ''<html>'') 25) (agedService (Some ''not a url''))))
     = []
   \<and> programsCache (snd (discoverPeriods
        (fixedParser [] \<lparr>metaStartDate = None, metaEndDate = None\<rparr> [])
        (fixedUtils ''25/26-R'' ''2025/2026'' ''autumn'')
        (\<lambda>ms. \<lparr>dYear = 2025, dMonth = 11, dDay = 3, dMillis = 0\<rparr>)
        (\<lambda>base. base = ''https://nodarbibas.rtu.lv'')
        (answering (Response ''<html>'') 25) (agedService (Some ''not a url''))))
     = programsCache (agedService (Some ''not a url''))
   \<and> livePeriods 4000000 (snd (discoverPeriods
        (fixedParser [] \<lparr>metaStartDate = None, metaEndDate = None\<rparr> [])
        (fixedUtils ''25/26-R'' ''2025/2026'' ''autumn'')
        (\<lambda>ms. \<lparr>dYear = 2025, dMonth = 11, dDay = 3, dMillis = 0\<rparr>)
        (\<lambda>base. base = ''https://nodarbibas.rtu.lv'')
        (answering (Response ''<html>'') 25) (agedService (Some ''not a url''))))
     = livePeriods 4000000 (agedService (Some ''not a url''))
   \<and> fst (discoverPrograms (throwingParser (Error ''no faculty list''))
        (fixedUtils ''25/26-R'' ''2025/2026'' ''autumn'')
        (\<lambda>base. base = ''https://nodarbibas.rtu.lv'')
        (answering (Response ''<html>'') 25) 28 (agedService None))
     = Inl (DiscoveryError ''Failed to fetch programs'' (Some (Error ''no faculty list'')))
   \<and> periodsCache (snd (discoverPrograms (throwingParser (Error ''no faculty list''))
        (fixedUtils ''25/26-R'' ''2025/2026'' ''autumn'')
        (\<lambda>base. base = ''https://nodarbibas.rtu.lv'')
        (answering (Response ''<html>'') 25) 28 (agedService None)))
     = Some \<lparr>data = [], timestamp = 0\<rparr>
   \<and> programsCache (snd (discoverPrograms (throwingParser (Error ''no faculty list''))
        (fixedUtils ''25/26-R'' ''2025/2026'' ''autumn'')
        (\<lambda>base. base = ''https://nodarbibas.rtu.lv'')
        (answering (Response ''<html>'') 25) 28 (agedService None))) 27
     = Some \<lparr>data = [], timestamp = 3990000\<rparr>
   \<and> programsCache (snd (discoverPrograms (throwingParser (Error ''no faculty list''))
        (fixedUtils ''25/26-R'' ''2025/2026'' ''autumn'')
        (\<lambda>base. base = ''https://nodarbibas.rtu.lv'')
        (answering (Response ''<html>'') 25) 28 (agedService None))) 28
     = None
   \<and> livePrograms 4000025 (snd (discoverPrograms (throwingParser (Error ''no faculty list''))
        (fixedUtils ''25/26-R'' ''2025/2026'' ''autumn'')
        (\<lambda>base. base = ''https://nodarbibas.rtu.lv'')
        (answering (Response ''<html>'') 25) 28 (agedService None)))
     = livePrograms 4000025 (agedService None)"
  using
    failure_keeps_cache_state
      [where tr = "answering (AxiosError ''timeout'') 10" and i = "Some 12" and c = agedClient
         and err = "Error ''API request failed: timeout''"
         and ?c1.0 = "snd (fetchSemesterProgramSubjects (answering (AxiosError ''timeout'') 10)
            (Some 12) agedClient)"
         and k = "publishedCacheKey (Some 12)" and t = 400000,
         THEN conjunct2, THEN conjunct1]
    failure_keeps_cache_state
      [where tr = "answering (AxiosError ''timeout'') 10" and i = "Some 12" and c = agedClient
         and err = "Error ''API request failed: timeout''"
         and ?c1.0 = "snd (fetchSemesterProgramSubjects (answering (AxiosError ''timeout'') 10)
            (Some 12) agedClient)"
         and k = "publishedCacheKey (Some 12)" and t = 400500,
         THEN conjunct2, THEN conjunct1]
    failure_keeps_cache_state
      [where hp = "fixedParser [] \<lparr>metaStartDate = None, metaEndDate = None\<rparr> []"
         and u = "fixedUtils ''25/26-R'' ''2025/2026'' ''autumn''"
         and localTime = "\<lambda>ms. \<lparr>dYear = 2025, dMonth = 11, dDay = 3, dMillis = 0\<rparr>"
         and validUrl = "\<lambda>base. base = ''https://nodarbibas.rtu.lv''"
         and dtr = "answering (Response ''<html>'') 25"
         and ds = "agedService (Some ''not a url'')"
         and err = "DiscoveryError ''Failed to fetch periods'' (Some (Error ''Invalid URL''))"
         and ?ds1.0 = "snd (discoverPeriods
            (fixedParser [] \<lparr>metaStartDate = None, metaEndDate = None\<rparr> [])
            (fixedUtils ''25/26-R'' ''2025/2026'' ''autumn'')
            (\<lambda>ms. \<lparr>dYear = 2025, dMonth = 11, dDay = 3, dMillis = 0\<rparr>)
            (\<lambda>base. base = ''https://nodarbibas.rtu.lv'')
            (answering (Response ''<html>'') 25) (agedService (Some ''not a url'')))"
         and t = 4000000,
         THEN conjunct2, THEN conjunct2, THEN conjunct2, THEN conjunct2, THEN conjunct2,
         THEN conjunct1]
    failure_keeps_cache_state
      [where hp = "throwingParser (Error ''no faculty list'')"
         and u = "fixedUtils ''25/26-R'' ''2025/2026'' ''autumn''"
         and validUrl = "\<lambda>base. base = ''https://nodarbibas.rtu.lv''"
         and dtr = "answering (Response ''<html>'') 25" and periodId = 28
         and ds = "agedService None"
         and err = "DiscoveryError ''Failed to fetch programs'' (Some (Error ''no faculty list''))"
         and ?ds1.0 = "snd (discoverPrograms (throwingParser (Error ''no faculty list''))
            (fixedUtils ''25/26-R'' ''2025/2026'' ''autumn'')
            (\<lambda>base. base = ''https://nodarbibas.rtu.lv'')
            (answering (Response ''<html>'') 25) 28 (agedService None))"
         and q = 27 and t = 4000025,
         THEN conjunct2, THEN conjunct2, THEN conjunct2, THEN conjunct2, THEN conjunct2,
         THEN conjunct2]
  by (simp add: fetchSemesterProgramSubjects_def notPositive_def getFromCache_def agedClient_def
      newApiClient_def answering_def post_def subjectsCacheKey_def publishedCacheKey_def
      discoverPeriods_def discoverPrograms_def getCachedPeriods_def getCachedPrograms_def
      fetchMainPage_def agedService_def newDiscoveryService_def throwingParser_def
      fixedParser_def Let_def)

section \<open>The frame of \<open>discoverPrograms\<close>\<close>

text \<open>
  Claim C10. A successful \<^verbatim>\<open>discoverPrograms(p)\<close> leaves the periods cache as it was and
  leaves the programs-cache entry of every other period \<open>q\<close> as it was, so that a read of
  \<open>q\<close> at any time \<open>t\<close> gives what it would have given without the call; the slot of
  \<open>p\<close> holds the returned list afterwards.
\<close>

theorem discoverPrograms_frame_effect:
  "discoverPrograms hp u validUrl tr p d = (Inr ps, d1) \<and> q \<noteq> p \<longrightarrow>
     periodsCache d1 = periodsCache d
   \<and> programsCache d1 q = programsCache d q
   \<and> fst (getCachedPrograms q (d1\<lparr>now := t\<rparr>)) = fst (getCachedPrograms q (d\<lparr>now := t\<rparr>))
   \<and> (\<exists>e. programsCache d1 p = Some e \<and> data e = ps)"
proof (intro impI, elim conjE)
  assume call: "discoverPrograms hp u validUrl tr p d = (Inr ps, d1)" and qp: "q \<noteq> p"
  have fr: "periodsCache d1 = periodsCache d"
    "discoveryCacheTimeout d1 = discoveryCacheTimeout d"
    "programsCache d1 q = programsCache d q"
    using discoverPrograms_frame[OF call] qp by simp_all
  have rd: "fst (getCachedPrograms q (d1\<lparr>now := t\<rparr>)) = fst (getCachedPrograms q (d\<lparr>now := t\<rparr>))"
    using fr by (simp add: getCachedPrograms_result split: option.splits)
  show "periodsCache d1 = periodsCache d
   \<and> programsCache d1 q = programsCache d q
   \<and> fst (getCachedPrograms q (d1\<lparr>now := t\<rparr>)) = fst (getCachedPrograms q (d\<lparr>now := t\<rparr>))
   \<and> (\<exists>e. programsCache d1 p = Some e \<and> data e = ps)"
    using fr rd discoverPrograms_success[OF call] by simp
qed

theorem discoverPrograms_frame_effect_witness:
  "fst (discoverPrograms
       (fixedParser [] \<lparr>metaStartDate = None, metaEndDate = None\<rparr>
          [\<lparr>facultyName = ''DITF'', facultyCode = ''33000'',
            facultyPrograms = [\<lparr>rpId = 333, rpName = ''Datorsistemas (RDBD0)'', rpCode = ''RDBD0'',
                                rpTokens = [''datorsistemas'']\<rparr>]\<rparr>])
       (fixedUtils ''25/26-R'' ''2025/2026'' ''autumn'')
       (\<lambda>base. base = ''https://nodarbibas.rtu.lv'') (answering (Response ''<html>'') 25) 28
       ((newDiscoveryService None None 0)
          \<lparr>periodsCache := Some \<lparr>data = [], timestamp = 0\<rparr>,
           programsCache := [27 \<mapsto> \<lparr>data = [], timestamp = 0\<rparr>]\<rparr>))
     = Inr [\<lparr>progId = 333, progName = ''Datorsistemas (RDBD0)'', progCode = ''RDBD0'',
              fullName = ''Datorsistemas (RDBD0)'', progFaculty = (''DITF'', ''33000''),
              tokens = [''datorsistemas'']\<rparr>]
   \<and> periodsCache (snd (discoverPrograms
       (fixedParser [] \<lparr>metaStartDate = None, metaEndDate = None\<rparr>
          [\<lparr>facultyName = ''DITF'', facultyCode = ''33000'',
            facultyPrograms = [\<lparr>rpId = 333, rpName = ''Datorsistemas (RDBD0)'', rpCode = ''RDBD0'',
                                rpTokens = [''datorsistemas'']\<rparr>]\<rparr>])
       (fixedUtils ''25/26-R'' ''2025/2026'' ''autumn'')
       (\<lambda>base. base = ''https://nodarbibas.rtu.lv'') (answering (Response ''<html>'') 25) 28
       ((newDiscoveryService None None 0)
          \<lparr>periodsCache := Some \<lparr>data = [], timestamp = 0\<rparr>,
           programsCache := [27 \<mapsto> \<lparr>data = [], timestamp = 0\<rparr>]\<rparr>)))
     = Some \<lparr>data = [], timestamp = 0\<rparr>
   \<and> programsCache (snd (discoverPrograms
       (fixedParser [] \<lparr>metaStartDate = None, metaEndDate = None\<rparr>
          [\<lparr>facultyName = ''DITF'', facultyCode = ''33000'',
            facultyPrograms = [\<lparr>rpId = 333, rpName = ''Datorsistemas (RDBD0)'', rpCode = ''RDBD0'',
                                rpTokens = [''datorsistemas'']\<rparr>]\<rparr>])
       (fixedUtils ''25/26-R'' ''2025/2026'' ''autumn'')
       (\<lambda>base. base = ''https://nodarbibas.rtu.lv'') (answering (Response ''<html>'') 25) 28
       ((newDiscoveryService None None 0)
          \<lparr>periodsCache := Some \<lparr>data = [], timestamp = 0\<rparr>,
           programsCache := [27 \<mapsto> \<lparr>data = [], timestamp = 0\<rparr>]\<rparr>))) 27
     = Some \<lparr>data = [], timestamp = 0\<rparr>"
  using discoverPrograms_frame_effect
      [where hp = "fixedParser [] \<lparr>metaStartDate = None, metaEndDate = None\<rparr>
          [\<lparr>facultyName = ''DITF'', facultyCode = ''33000'',
            facultyPrograms = [\<lparr>rpId = 333, rpName = ''Datorsistemas (RDBD0)'', rpCode = ''RDBD0'',
                                rpTokens = [''datorsistemas'']\<rparr>]\<rparr>]"
         and u = "fixedUtils ''25/26-R'' ''2025/2026'' ''autumn''"
         and validUrl = "\<lambda>base. base = ''https://nodarbibas.rtu.lv''"
         and tr = "answering (Response ''<html>'') 25" and p = 28 and q = 27
         and d = "(newDiscoveryService None None 0)
          \<lparr>periodsCache := Some \<lparr>data = [], timestamp = 0\<rparr>,
           programsCache := [27 \<mapsto> \<lparr>data = [], timestamp = 0\<rparr>]\<rparr>"
         and ps = "[\<lparr>progId = 333, progName = ''Datorsistemas (RDBD0)'', progCode = ''RDBD0'',
                     fullName = ''Datorsistemas (RDBD0)'', progFaculty = (''DITF'', ''33000''),
                     tokens = [''datorsistemas'']\<rparr>]"
         and ?d1.0 = "snd (discoverPrograms
       (fixedParser [] \<lparr>metaStartDate = None, metaEndDate = None\<rparr>
          [\<lparr>facultyName = ''DITF'', facultyCode = ''33000'',
            facultyPrograms = [\<lparr>rpId = 333, rpName = ''Datorsistemas (RDBD0)'', rpCode = ''RDBD0'',
                                rpTokens = [''datorsistemas'']\<rparr>]\<rparr>])
       (fixedUtils ''25/26-R'' ''2025/2026'' ''autumn'')
       (\<lambda>base. base = ''https://nodarbibas.rtu.lv'') (answering (Response ''<html>'') 25) 28
       ((newDiscoveryService None None 0)
          \<lparr>periodsCache := Some \<lparr>data = [], timestamp = 0\<rparr>,
           programsCache := [27 \<mapsto> \<lparr>data = [], timestamp = 0\<rparr>]\<rparr>))"]
  by (simp add: discoverPrograms_def getCachedPrograms_def fetchMainPage_def
      newDiscoveryService_def answering_def fixedParser_def fixedUtils_def
      transformFacultiesToPrograms_def Let_def)

section \<open>Cache reads at the end of the time-to-live\<close>

text \<open>
  Claim C1. The client's \<^verbatim>\<open>getFromCache\<close> returns the stored value when the entry's age
  is less than the time-to-live and removes the entry otherwise (\<open>getFromCache_read\<close>).
  The two reads of the discovery service test \<^verbatim>\<open>age > cacheTimeout\<close> instead
  (\<open>getCachedPeriods_read\<close>, \<open>getCachedPrograms_read\<close>): when the age equals the
  time-to-live they return the stored list and keep the entry. Here the time-to-live is
  1000, the entries were written at time 0 and are read at time 1000: both discovery reads
  return the stored list and leave the service unchanged, while the client's read of an
  entry of the same age returns \<^verbatim>\<open>undefined\<close> and empties the slot.
\<close>

theorem discovery_read_at_ttl_boundary:
  "getCachedPeriods
     ((newDiscoveryService None (Some 1000) 0)
        \<lparr>now := 1000,
         periodsCache := Some \<lparr>data =
           [\<lparr>spId = 28, spName = ''2025/2026 Rudens semestris (25/26-R)'', spCode = ''25/26-R'',
             spAcademicYear = ''2025/2026'', spSeason = ''autumn'',
             startDate = \<lparr>dYear = 2025, dMonth = 9, dDay = 1, dMillis = 0\<rparr>,
             endDate = \<lparr>dYear = 2026, dMonth = 1, dDay = 31, dMillis = 0\<rparr>,
             isSelected = True\<rparr>], timestamp = 0\<rparr>\<rparr>)
   = (Some [\<lparr>spId = 28, spName = ''2025/2026 Rudens semestris (25/26-R)'', spCode = ''25/26-R'',
             spAcademicYear = ''2025/2026'', spSeason = ''autumn'',
             startDate = \<lparr>dYear = 2025, dMonth = 9, dDay = 1, dMillis = 0\<rparr>,
             endDate = \<lparr>dYear = 2026, dMonth = 1, dDay = 31, dMillis = 0\<rparr>,
             isSelected = True\<rparr>],
      (newDiscoveryService None (Some 1000) 0)
        \<lparr>now := 1000,
         periodsCache := Some \<lparr>data =
           [\<lparr>spId = 28, spName = ''2025/2026 Rudens semestris (25/26-R)'', spCode = ''25/26-R'',
             spAcademicYear = ''2025/2026'', spSeason = ''autumn'',
             startDate = \<lparr>dYear = 2025, dMonth = 9, dDay = 1, dMillis = 0\<rparr>,
             endDate = \<lparr>dYear = 2026, dMonth = 1, dDay = 31, dMillis = 0\<rparr>,
             isSelected = True\<rparr>], timestamp = 0\<rparr>\<rparr>)
 \<and> getCachedPrograms 28
     ((newDiscoveryService None (Some 1000) 0)
        \<lparr>now := 1000,
         programsCache := [28 \<mapsto> \<lparr>data =
           [\<lparr>progId = 333, progName = ''Datorsistemas'', progCode = ''RDBD0'',
             fullName = ''Datorsistemas (RDBD0)'', progFaculty = (''DITF'', ''33000''),
             tokens = [''datorsistemas'']\<rparr>], timestamp = 0\<rparr>]\<rparr>)
   = (Some [\<lparr>progId = 333, progName = ''Datorsistemas'', progCode = ''RDBD0'',
             fullName = ''Datorsistemas (RDBD0)'', progFaculty = (''DITF'', ''33000''),
             tokens = [''datorsistemas'']\<rparr>],
      (newDiscoveryService None (Some 1000) 0)
        \<lparr>now := 1000,
         programsCache := [28 \<mapsto> \<lparr>data =
           [\<lparr>progId = 333, progName = ''Datorsistemas'', progCode = ''RDBD0'',
             fullName = ''Datorsistemas (RDBD0)'', progFaculty = (''DITF'', ''33000''),
             tokens = [''datorsistemas'']\<rparr>], timestamp = 0\<rparr>]\<rparr>)
 \<and> getFromCache ''subjects_12''
     ((newApiClient (Some 1000) 0)
        \<lparr>now := 1000, cache := [''subjects_12'' \<mapsto> \<lparr>data = Arr [Num 1], timestamp = 0\<rparr>]\<rparr>)
   = (Undefined, (newApiClient (Some 1000) 0)\<lparr>now := 1000, cache := Map.empty\<rparr>)"
  by (simp add: getCachedPeriods_def getCachedPrograms_def getFromCache_def
      newDiscoveryService_def newApiClient_def)

section \<open>Authoritative dates\<close>

text \<open>
  Claim C5. For a period flagged as selected whose metadata holds both a start and an end
  date, the resolved start and end dates are those two dates, whatever the label functions
  return for the season and the academic year, and whatever the clock reads.
\<close>

theorem authoritative_dates_verbatim:
  "semIsSelected sem \<and> metaStartDate metadata = Some s \<and> metaEndDate metadata = Some e \<longrightarrow>
     startDate (transformToStudyPeriod u today sem metadata) = s
   \<and> endDate (transformToStudyPeriod u today sem metadata) = e"
  using transform_authoritative[of sem metadata s e u today] by blast

theorem authoritative_dates_verbatim_witness:
  "startDate (transformToStudyPeriod (fixedUtils ''??'' ''no year here'' ''summer'')
      \<lparr>dYear = 2026, dMonth = 11, dDay = 3, dMillis = 4250\<rparr>
      \<lparr>semId = 27, semName = ''2024/2025 Rudens semestris (24/25-R)'', semIsSelected = True\<rparr>
      \<lparr>metaStartDate = Some (ymd 2024 9 1), metaEndDate = Some (ymd 2025 1 31)\<rparr>)
     = ymd 2024 9 1
   \<and> endDate (transformToStudyPeriod (fixedUtils ''??'' ''no year here'' ''summer'')
      \<lparr>dYear = 2026, dMonth = 11, dDay = 3, dMillis = 4250\<rparr>
      \<lparr>semId = 27, semName = ''2024/2025 Rudens semestris (24/25-R)'', semIsSelected = True\<rparr>
      \<lparr>metaStartDate = Some (ymd 2024 9 1), metaEndDate = Some (ymd 2025 1 31)\<rparr>)
     = ymd 2025 1 31"
  using authoritative_dates_verbatim
    [where sem = "\<lparr>semId = 27, semName = ''2024/2025 Rudens semestris (24/25-R)'',
                     semIsSelected = True\<rparr>"
       and metadata = "\<lparr>metaStartDate = Some (ymd 2024 9 1), metaEndDate = Some (ymd 2025 1 31)\<rparr>"
       and s = "ymd 2024 9 1" and e = "ymd 2025 1 31"
       and u = "fixedUtils ''??'' ''no year here'' ''summer''"
       and today = "\<lparr>dYear = 2026, dMonth = 11, dDay = 3, dMillis = 4250\<rparr>"]
  by simp

section \<open>The default date range\<close>

text \<open>
  What the default computation returns. For a period that is not selected, or whose
  metadata lacks a start or an end date, the range is the specification's table (autumn:
  start year, September 1 to end year, January 31; spring: end year, February 1 to June 30;
  summer: end year, July 1 to August 31; any other season: the current date twice) applied
  to the two years of the academic-year string \<^verbatim>\<open>YYYY/YYYY\<close>, or to the current year
  and the next when the string is not of that form, each year taken as the date
  constructor reads it. For years from 0100 on, and for a current year from 100 on, these
  are the years as written. Every string is of the form \<^verbatim>\<open>YYYY/YYYY\<close> or is rejected
  by the match.
\<close>

theorem default_date_range:
  "(\<not> authoritative sem metadata
      \<and> parseAcademicYear u (semName sem) = fourDigits a @ ''/'' @ fourDigits b
      \<and> a < 10000 \<and> b < 10000
    \<longrightarrow> (startDate (transformToStudyPeriod u today sem metadata),
         endDate (transformToStudyPeriod u today sem metadata))
        = specDateRange (parseSeason u (semName sem)) (fullYear (int a)) (fullYear (int b)) today)
 \<and> (\<not> authoritative sem metadata
      \<and> parseAcademicYear u (semName sem) = fourDigits a @ ''/'' @ fourDigits b
      \<and> 100 \<le> a \<and> a < 10000 \<and> 100 \<le> b \<and> b < 10000
    \<longrightarrow> (startDate (transformToStudyPeriod u today sem metadata),
         endDate (transformToStudyPeriod u today sem metadata))
        = specDateRange (parseSeason u (semName sem)) (int a) (int b) today)
 \<and> (\<not> authoritative sem metadata \<and> yearMatch (parseAcademicYear u (semName sem)) = None
    \<longrightarrow> (startDate (transformToStudyPeriod u today sem metadata),
         endDate (transformToStudyPeriod u today sem metadata))
        = specDateRange (parseSeason u (semName sem))
            (fullYear (dYear today)) (fullYear (dYear today + 1)) today)
 \<and> (\<not> authoritative sem metadata \<and> yearMatch (parseAcademicYear u (semName sem)) = None
      \<and> 100 \<le> dYear today
    \<longrightarrow> (startDate (transformToStudyPeriod u today sem metadata),
         endDate (transformToStudyPeriod u today sem metadata))
        = specDateRange (parseSeason u (semName sem)) (dYear today) (dYear today + 1) today)
 \<and> (yearMatch academicYear = None \<or>
      (\<exists>a' b'. a' < 10000 \<and> b' < 10000 \<and> academicYear = fourDigits a' @ ''/'' @ fourDigits b'))"
proof -
  let ?p = "transformToStudyPeriod u today sem metadata"
  let ?season = "parseSeason u (semName sem)"
  have parsed: "(startDate ?p, endDate ?p)
        = specDateRange ?season (fullYear (int a)) (fullYear (int b)) today"
    if "\<not> authoritative sem metadata"
      "parseAcademicYear u (semName sem) = fourDigits a @ ''/'' @ fourDigits b"
      "a < 10000" "b < 10000"
    using transform_default[OF that(1), of u today] defaultDateRange_parsed[OF that(3) that(4)]
      that(2)
    by simp
  have parsed100: "(startDate ?p, endDate ?p) = specDateRange ?season (int a) (int b) today"
    if "\<not> authoritative sem metadata"
      "parseAcademicYear u (semName sem) = fourDigits a @ ''/'' @ fourDigits b"
      "100 \<le> a" "a < 10000" "100 \<le> b" "b < 10000"
    using parsed[OF that(1) that(2) that(4) that(6)] that(3) that(5)
    by (simp add: fullYear_from_100)
  have unparsed: "(startDate ?p, endDate ?p)
        = specDateRange ?season (fullYear (dYear today)) (fullYear (dYear today + 1)) today"
    if "\<not> authoritative sem metadata" "yearMatch (parseAcademicYear u (semName sem)) = None"
    using transform_default[OF that(1), of u today] defaultDateRange_unparsed[OF that(2)]
    by simp
  have unparsed100: "(startDate ?p, endDate ?p)
        = specDateRange ?season (dYear today) (dYear today + 1) today"
    if "\<not> authoritative sem metadata" "yearMatch (parseAcademicYear u (semName sem)) = None"
      "100 \<le> dYear today"
    using unparsed[OF that(1) that(2)] that(3) by (simp add: fullYear_from_100)
  have total: "yearMatch academicYear = None \<or>
      (\<exists>a' b'. a' < 10000 \<and> b' < 10000 \<and> academicYear = fourDigits a' @ ''/'' @ fourDigits b')"
  proof (cases "yearMatch academicYear")
    case None
    then show ?thesis by simp
  next
    case (Some g)
    then show ?thesis using yearMatch_Some[of academicYear "fst g" "snd g"] by auto
  qed
  show ?thesis
    using parsed parsed100 unparsed unparsed100 total by blast
qed

theorem default_date_range_witness:
  "(startDate (transformToStudyPeriod (fixedUtils ''24/25-P'' ''2024/2025'' ''spring'')
        \<lparr>dYear = 2026, dMonth = 11, dDay = 3, dMillis = 4250\<rparr>
        \<lparr>semId = 26, semName = ''2024/2025 Pavasara semestris (24/25-P)'', semIsSelected = False\<rparr>
        \<lparr>metaStartDate = Some (ymd 2025 9 1), metaEndDate = Some (ymd 2026 1 31)\<rparr>),
    endDate (transformToStudyPeriod (fixedUtils ''24/25-P'' ''2024/2025'' ''spring'')
        \<lparr>dYear = 2026, dMonth = 11, dDay = 3, dMillis = 4250\<rparr>
        \<lparr>semId = 26, semName = ''2024/2025 Pavasara semestris (24/25-P)'', semIsSelected = False\<rparr>
        \<lparr>metaStartDate = Some (ymd 2025 9 1), metaEndDate = Some (ymd 2026 1 31)\<rparr>))
     = (ymd 2025 2 1, ymd 2025 6 30)
   \<and> (startDate (transformToStudyPeriod (fixedUtils '''' '''' ''unknown'')
        \<lparr>dYear = 2026, dMonth = 11, dDay = 3, dMillis = 4250\<rparr>
        \<lparr>semId = 9, semName = ''Papildu sesija'', semIsSelected = True\<rparr>
        \<lparr>metaStartDate = None, metaEndDate = None\<rparr>),
      endDate (transformToStudyPeriod (fixedUtils '''' '''' ''unknown'')
        \<lparr>dYear = 2026, dMonth = 11, dDay = 3, dMillis = 4250\<rparr>
        \<lparr>semId = 9, semName = ''Papildu sesija'', semIsSelected = True\<rparr>
        \<lparr>metaStartDate = None, metaEndDate = None\<rparr>))
     = (\<lparr>dYear = 2026, dMonth = 11, dDay = 3, dMillis = 4250\<rparr>,
        \<lparr>dYear = 2026, dMonth = 11, dDay = 3, dMillis = 4250\<rparr>)
   \<and> (startDate (transformToStudyPeriod (fixedUtils '''' ''25/26'' ''autumn'')
        \<lparr>dYear = 2026, dMonth = 11, dDay = 3, dMillis = 4250\<rparr>
        \<lparr>semId = 9, semName = ''Rudens 25/26'', semIsSelected = False\<rparr>
        \<lparr>metaStartDate = None, metaEndDate = None\<rparr>),
      endDate (transformToStudyPeriod (fixedUtils '''' ''25/26'' ''autumn'')
        \<lparr>dYear = 2026, dMonth = 11, dDay = 3, dMillis = 4250\<rparr>
        \<lparr>semId = 9, semName = ''Rudens 25/26'', semIsSelected = False\<rparr>
        \<lparr>metaStartDate = None, metaEndDate = None\<rparr>))
     = (ymd 2026 9 1, ymd 2027 1 31)"
  using
    default_date_range
      [where sem = "\<lparr>semId = 26, semName = ''2024/2025 Pavasara semestris (24/25-P)'',
                       semIsSelected = False\<rparr>"
         and metadata = "\<lparr>metaStartDate = Some (ymd 2025 9 1), metaEndDate = Some (ymd 2026 1 31)\<rparr>"
         and u = "fixedUtils ''24/25-P'' ''2024/2025'' ''spring''"
         and today = "\<lparr>dYear = 2026, dMonth = 11, dDay = 3, dMillis = 4250\<rparr>"
         and a = 2024 and b = 2025, THEN conjunct2, THEN conjunct1]
    default_date_range
      [where sem = "\<lparr>semId = 9, semName = ''Papildu sesija'', semIsSelected = True\<rparr>"
         and metadata = "\<lparr>metaStartDate = None, metaEndDate = None\<rparr>"
         and u = "fixedUtils '''' '''' ''unknown''"
         and today = "\<lparr>dYear = 2026, dMonth = 11, dDay = 3, dMillis = 4250\<rparr>",
         THEN conjunct2, THEN conjunct2, THEN conjunct2, THEN conjunct1]
    default_date_range
      [where sem = "\<lparr>semId = 9, semName = ''Rudens 25/26'', semIsSelected = False\<rparr>"
         and metadata = "\<lparr>metaStartDate = None, metaEndDate = None\<rparr>"
         and u = "fixedUtils '''' ''25/26'' ''autumn''"
         and today = "\<lparr>dYear = 2026, dMonth = 11, dDay = 3, dMillis = 4250\<rparr>",
         THEN conjunct2, THEN conjunct2, THEN conjunct2, THEN conjunct1]
  by (simp add: authoritative_def fixedUtils_def fourDigits_def digitChar_def yearMatch_def
      specDateRange_def)

text \<open>
  Claim C4. The default range is computed from the two four-digit years of the
  academic-year string and the season, spring giving end year, February 1 to June 30. The
  theorem \<open>default_date_range\<close> proves this for years from 0100 on. For the academic year
  \<^verbatim>\<open>0050/0051\<close> and the season spring the code returns 1951-02-01 to 1951-06-30, where
  the claim has 0051-02-01 to 0051-06-30: \<^verbatim>\<open>new Date(51, 1, 1)\<close> is a day of 1951.
\<close>

theorem two_digit_year_range:
  "defaultDateRange \<lparr>dYear = 2026, dMonth = 11, dDay = 3, dMillis = 4250\<rparr> ''0050/0051'' ''spring''
     = (ymd 1951 2 1, ymd 1951 6 30)
   \<and> specDateRange ''spring'' 50 51 \<lparr>dYear = 2026, dMonth = 11, dDay = 3, dMillis = 4250\<rparr>
     = (ymd 51 2 1, ymd 51 6 30)
   \<and> startDate (transformToStudyPeriod (fixedUtils ''50/51-P'' ''0050/0051'' ''spring'')
        \<lparr>dYear = 2026, dMonth = 11, dDay = 3, dMillis = 4250\<rparr>
        \<lparr>semId = 3, semName = ''0050/0051 Pavasara semestris (50/51-P)'', semIsSelected = False\<rparr>
        \<lparr>metaStartDate = None, metaEndDate = None\<rparr>)
     \<noteq> ymd 51 2 1"
  by (simp add: transformToStudyPeriod_def fixedUtils_def defaultDateRange_def yearMatch_def
      isDigit_def parseInt_def digitVal_def newDate_def fullYear_def ymd_def specDateRange_def Let_def)

section \<open>Start date and end date\<close>

text \<open>
  Claim C3, as amended. The service does not compare the two dates of a period. For a
  selected period with both authoritative dates, the start is at most the end exactly when
  the authoritative start is at most the authoritative end. For a period with the default
  range, the start is at most the end whenever the season is not autumn; for autumn and an
  academic year \<^verbatim>\<open>YYYY/YYYY\<close> of years from 0100 on, exactly when the first year is
  less than the second; and for autumn and an academic year that is not of that form, when
  the current year is at least 100.
\<close>

theorem start_before_end:
  "(semIsSelected sem \<and> metaStartDate metadata = Some s \<and> metaEndDate metadata = Some e
    \<longrightarrow> (date_le (startDate (transformToStudyPeriod u today sem metadata))
                (endDate (transformToStudyPeriod u today sem metadata))
         \<longleftrightarrow> date_le s e))
 \<and> (\<not> authoritative sem metadata \<and> parseSeason u (semName sem) \<noteq> ''autumn''
    \<longrightarrow> date_le (startDate (transformToStudyPeriod u today sem metadata))
               (endDate (transformToStudyPeriod u today sem metadata)))
 \<and> (\<not> authoritative sem metadata \<and> parseSeason u (semName sem) = ''autumn''
      \<and> parseAcademicYear u (semName sem) = fourDigits a @ ''/'' @ fourDigits b
      \<and> 100 \<le> a \<and> a < 10000 \<and> 100 \<le> b \<and> b < 10000
    \<longrightarrow> (date_le (startDate (transformToStudyPeriod u today sem metadata))
                (endDate (transformToStudyPeriod u today sem metadata))
         \<longleftrightarrow> a < b))
 \<and> (\<not> authoritative sem metadata \<and> parseSeason u (semName sem) = ''autumn''
      \<and> yearMatch (parseAcademicYear u (semName sem)) = None \<and> 100 \<le> dYear today
    \<longrightarrow> date_le (startDate (transformToStudyPeriod u today sem metadata))
               (endDate (transformToStudyPeriod u today sem metadata)))"
proof -
  let ?p = "transformToStudyPeriod u today sem metadata"
  let ?season = "parseSeason u (semName sem)"
  let ?ay = "parseAcademicYear u (semName sem)"
  have auth: "date_le (startDate ?p) (endDate ?p) \<longleftrightarrow> date_le s e"
    if "semIsSelected sem" "metaStartDate metadata = Some s" "metaEndDate metadata = Some e"
    using transform_authoritative[OF that, of u today] by simp
  have parsed: "date_le (startDate ?p) (endDate ?p)
        \<longleftrightarrow> ?season \<noteq> ''autumn'' \<or> fullYear (int a') < fullYear (int b')"
    if "\<not> authoritative sem metadata" "?ay = fourDigits a' @ ''/'' @ fourDigits b'"
      "a' < 10000" "b' < 10000" for a' b'
    using transform_default[OF that(1), of u today] defaultDateRange_parsed[OF that(3) that(4)]
      that(2) date_le_specDateRange[of ?season "fullYear (int a')" "fullYear (int b')" today]
    by simp
  have unparsed: "date_le (startDate ?p) (endDate ?p)
        \<longleftrightarrow> ?season \<noteq> ''autumn'' \<or> dYear today \<noteq> 99"
    if "\<not> authoritative sem metadata" "yearMatch ?ay = None"
    using transform_default[OF that(1), of u today] defaultDateRange_unparsed[OF that(2)]
      date_le_specDateRange[of ?season "fullYear (dYear today)" "fullYear (dYear today + 1)" today]
    by (simp add: fullYear_succ)
  have other: "date_le (startDate ?p) (endDate ?p)"
    if na: "\<not> authoritative sem metadata" and ns: "?season \<noteq> ''autumn''"
  proof (cases "yearMatch ?ay")
    case None
    then show ?thesis using unparsed[OF na] ns by simp
  next
    case (Some g)
    then obtain a' b' where "a' < 10000" "b' < 10000" "?ay = fourDigits a' @ ''/'' @ fourDigits b'"
      using yearMatch_Some[of ?ay "fst g" "snd g"] by auto
    then show ?thesis using parsed[OF na, of a' b'] ns by simp
  qed
  have autumn: "date_le (startDate ?p) (endDate ?p) \<longleftrightarrow> a < b"
    if "\<not> authoritative sem metadata" "?season = ''autumn''"
      "?ay = fourDigits a @ ''/'' @ fourDigits b" "100 \<le> a" "a < 10000" "100 \<le> b" "b < 10000"
    using parsed[OF that(1) that(3) that(5) that(7)] that(2) that(4) that(6)
    by (simp add: fullYear_from_100)
  have fallback: "date_le (startDate ?p) (endDate ?p)"
    if "\<not> authoritative sem metadata" "?season = ''autumn''" "yearMatch ?ay = None"
      "100 \<le> dYear today"
    using unparsed[OF that(1) that(3)] that(4) by simp
  show ?thesis
    using auth other autumn fallback by blast
qed


text \<open>
  The claim as first stated fails: authoritative dates are used as they come, so a selected
  period whose metadata has the end before the start keeps that order; and the default
  range for autumn starts after it ends when the academic year reads \<^verbatim>\<open>2025/2024\<close>.
\<close>

theorem reversed_dates_counterexample:
  "\<not> date_le
      (startDate (transformToStudyPeriod (fixedUtils ''24/25-R'' ''2024/2025'' ''autumn'')
        \<lparr>dYear = 2026, dMonth = 11, dDay = 3, dMillis = 4250\<rparr>
        \<lparr>semId = 27, semName = ''2024/2025 Rudens semestris (24/25-R)'', semIsSelected = True\<rparr>
        \<lparr>metaStartDate = Some (ymd 2025 1 31), metaEndDate = Some (ymd 2024 9 1)\<rparr>))
      (endDate (transformToStudyPeriod (fixedUtils ''24/25-R'' ''2024/2025'' ''autumn'')
        \<lparr>dYear = 2026, dMonth = 11, dDay = 3, dMillis = 4250\<rparr>
        \<lparr>semId = 27, semName = ''2024/2025 Rudens semestris (24/25-R)'', semIsSelected = True\<rparr>
        \<lparr>metaStartDate = Some (ymd 2025 1 31), metaEndDate = Some (ymd 2024 9 1)\<rparr>))
   \<and> \<not> date_le
      (fst (defaultDateRange \<lparr>dYear = 2026, dMonth = 11, dDay = 3, dMillis = 4250\<rparr>
         ''2025/2024'' ''autumn''))
      (snd (defaultDateRange \<lparr>dYear = 2026, dMonth = 11, dDay = 3, dMillis = 4250\<rparr>
         ''2025/2024'' ''autumn''))"
  by (simp add: transformToStudyPeriod_def fixedUtils_def defaultDateRange_def yearMatch_def
      isDigit_def parseInt_def digitVal_def newDate_def fullYear_def ymd_def date_le_def Let_def)

theorem start_before_end_witness:
  "date_le
      (startDate (transformToStudyPeriod (fixedUtils ''24/25-R'' ''2024/2025'' ''autumn'')
        \<lparr>dYear = 2026, dMonth = 11, dDay = 3, dMillis = 4250\<rparr>
        \<lparr>semId = 27, semName = ''2024/2025 Rudens semestris (24/25-R)'', semIsSelected = False\<rparr>
        \<lparr>metaStartDate = None, metaEndDate = None\<rparr>))
      (endDate (transformToStudyPeriod (fixedUtils ''24/25-R'' ''2024/2025'' ''autumn'')
        \<lparr>dYear = 2026, dMonth = 11, dDay = 3, dMillis = 4250\<rparr>
        \<lparr>semId = 27, semName = ''2024/2025 Rudens semestris (24/25-R)'', semIsSelected = False\<rparr>
        \<lparr>metaStartDate = None, metaEndDate = None\<rparr>))
   \<and> date_le
      (startDate (transformToStudyPeriod (fixedUtils ''24/25-P'' ''2024/2025'' ''spring'')
        \<lparr>dYear = 2026, dMonth = 11, dDay = 3, dMillis = 4250\<rparr>
        \<lparr>semId = 26, semName = ''2024/2025 Pavasara semestris (24/25-P)'', semIsSelected = False\<rparr>
        \<lparr>metaStartDate = None, metaEndDate = None\<rparr>))
      (endDate (transformToStudyPeriod (fixedUtils ''24/25-P'' ''2024/2025'' ''spring'')
        \<lparr>dYear = 2026, dMonth = 11, dDay = 3, dMillis = 4250\<rparr>
        \<lparr>semId = 26, semName = ''2024/2025 Pavasara semestris (24/25-P)'', semIsSelected = False\<rparr>
        \<lparr>metaStartDate = None, metaEndDate = None\<rparr>))
   \<and> date_le
      (startDate (transformToStudyPeriod (fixedUtils ''24/25-R'' ''2024/2025'' ''autumn'')
        \<lparr>dYear = 2026, dMonth = 11, dDay = 3, dMillis = 4250\<rparr>
        \<lparr>semId = 27, semName = ''2024/2025 Rudens semestris (24/25-R)'', semIsSelected = True\<rparr>
        \<lparr>metaStartDate = Some (ymd 2024 9 2), metaEndDate = Some (ymd 2025 1 26)\<rparr>))
      (endDate (transformToStudyPeriod (fixedUtils ''24/25-R'' ''2024/2025'' ''autumn'')
        \<lparr>dYear = 2026, dMonth = 11, dDay = 3, dMillis = 4250\<rparr>
        \<lparr>semId = 27, semName = ''2024/2025 Rudens semestris (24/25-R)'', semIsSelected = True\<rparr>
        \<lparr>metaStartDate = Some (ymd 2024 9 2), metaEndDate = Some (ymd 2025 1 26)\<rparr>))"
  using
    start_before_end
      [where sem = "\<lparr>semId = 27, semName = ''2024/2025 Rudens semestris (24/25-R)'',
                       semIsSelected = False\<rparr>"
         and metadata = "\<lparr>metaStartDate = None, metaEndDate = None\<rparr>"
         and u = "fixedUtils ''24/25-R'' ''2024/2025'' ''autumn''"
         and today = "\<lparr>dYear = 2026, dMonth = 11, dDay = 3, dMillis = 4250\<rparr>"
         and a = 2024 and b = 2025,
         THEN conjunct2, THEN conjunct2, THEN conjunct1]
    start_before_end
      [where sem = "\<lparr>semId = 26, semName = ''2024/2025 Pavasara semestris (24/25-P)'',
                       semIsSelected = False\<rparr>"
         and metadata = "\<lparr>metaStartDate = None, metaEndDate = None\<rparr>"
         and u = "fixedUtils ''24/25-P'' ''2024/2025'' ''spring''"
         and today = "\<lparr>dYear = 2026, dMonth = 11, dDay = 3, dMillis = 4250\<rparr>",
         THEN conjunct2, THEN conjunct1]
    start_before_end
      [where sem = "\<lparr>semId = 27, semName = ''2024/2025 Rudens semestris (24/25-R)'',
                       semIsSelected = True\<rparr>"
         and metadata = "\<lparr>metaStartDate = Some (ymd 2024 9 2), metaEndDate = Some (ymd 2025 1 26)\<rparr>"
         and s = "ymd 2024 9 2" and e = "ymd 2025 1 26"
         and u = "fixedUtils ''24/25-R'' ''2024/2025'' ''autumn''"
         and today = "\<lparr>dYear = 2026, dMonth = 11, dDay = 3, dMillis = 4250\<rparr>",
         THEN conjunct1]
  by (simp add: authoritative_def fixedUtils_def fourDigits_def digitChar_def ymd_def date_le_def)

end
